theory Spec2Isabelle
  imports Main "HOL-Library.Char_ord"
begin

section \<open>JavaScript values and string helpers\<close>

text \<open>
  Values that flow through the import and export pipelines. A string is a list of
  characters, one per code unit; numbers are the integral ones (identifiers, counters,
  indexes), since non-integral doubles play no part in the pipelines' control flow.
  An object is the association list of its own enumerable properties, in insertion
  order. \<open>JFun\<close> is a built-in function of the runtime, by name.
\<close>

datatype jsval =
    JUndefined
  | JNull
  | JBool bool
  | JNum int
  | JStr string
  | JArr "jsval list"
  | JObj "(string \<times> jsval) list"
  | JFun string

definition getProp :: "jsval \<Rightarrow> string \<Rightarrow> jsval" where
  "getProp v k = (case v of
      JObj kvs \<Rightarrow> (case map_of kvs k of Some x \<Rightarrow> x | None \<Rightarrow> JUndefined)
    | _ \<Rightarrow> JUndefined)"

text \<open>Truthiness, \<open>a || b\<close> and \<open>a ?? b\<close>.\<close>

fun truthy :: "jsval \<Rightarrow> bool" where
  "truthy JUndefined = False"
| "truthy JNull = False"
| "truthy (JBool b) = b"
| "truthy (JNum n) = (n \<noteq> 0)"
| "truthy (JStr s) = (s \<noteq> [])"
| "truthy (JArr _) = True"
| "truthy (JObj _) = True"
| "truthy (JFun _) = True"

definition js_or :: "jsval \<Rightarrow> jsval \<Rightarrow> jsval" where
  "js_or a b = (if truthy a then a else b)"

definition js_nullish :: "jsval \<Rightarrow> jsval \<Rightarrow> jsval" where
  "js_nullish a b = (if a = JUndefined \<or> a = JNull then b else a)"

definition str_val :: "string option \<Rightarrow> jsval" where
  "str_val s = (case s of None \<Rightarrow> JUndefined | Some x \<Rightarrow> JStr x)"

definition num_val :: "int option \<Rightarrow> jsval" where
  "num_val n = (case n of None \<Rightarrow> JUndefined | Some x \<Rightarrow> JNum x)"

definition bool_val :: "bool option \<Rightarrow> jsval" where
  "bool_val b = (case b of None \<Rightarrow> JUndefined | Some x \<Rightarrow> JBool x)"

text \<open>Character classes of the ASCII range.\<close>

definition is_lower :: "char \<Rightarrow> bool" where
  "is_lower c = (CHR ''a'' \<le> c \<and> c \<le> CHR ''z'')"

definition is_upper :: "char \<Rightarrow> bool" where
  "is_upper c = (CHR ''A'' \<le> c \<and> c \<le> CHR ''Z'')"

definition is_digit :: "char \<Rightarrow> bool" where
  "is_digit c = (CHR ''0'' \<le> c \<and> c \<le> CHR ''9'')"

definition is_space :: "char \<Rightarrow> bool" where
  "is_space c = (c = CHR '' '' \<or> ((9::nat) \<le> of_char c \<and> of_char c \<le> (13::nat)))"

definition toLowerCase :: "string \<Rightarrow> string" where
  "toLowerCase s = map (\<lambda>c. if is_upper c then char_of (of_char c + (32::nat)) else c) s"

text \<open>\<open>s.trim()\<close>, \<open>s.includes('-')\<close>, \<open>s.replace(/\s+/g, '')\<close>, \<open>s.split(sep)\<close>.\<close>

definition trim :: "string \<Rightarrow> string" where
  "trim s = rev (dropWhile is_space (rev (dropWhile is_space s)))"

definition str_includes :: "string \<Rightarrow> char \<Rightarrow> bool" where
  "str_includes s c = (c \<in> set s)"

definition removeSpaces :: "string \<Rightarrow> string" where
  "removeSpaces s = filter (\<lambda>c. \<not> is_space c) s"

fun split :: "char \<Rightarrow> string \<Rightarrow> string list" where
  "split sep [] = [[]]"
| "split sep (c # cs) =
     (if c = sep then [] # split sep cs
      else (case split sep cs of
              [] \<Rightarrow> [[c]]
            | p # ps \<Rightarrow> (c # p) # ps))"

fun join :: "string \<Rightarrow> string list \<Rightarrow> string" where
  "join sep [] = []"
| "join sep [x] = x"
| "join sep (x # y # ys) = x @ sep @ join sep (y # ys)"

definition startsWith :: "string \<Rightarrow> string \<Rightarrow> bool" where
  "startsWith s p = (take (length p) s = p)"

definition endsWith :: "string \<Rightarrow> string \<Rightarrow> bool" where
  "endsWith s p = (length p \<le> length s \<and> drop (length s - length p) s = p)"

section \<open>Record validation (importSchemas)\<close>

text \<open>
  A validated import record is the object a schema returns: the keys of the schema,
  each present or absent. The repository functions read three further keys
  (\<open>username\<close>, \<open>password\<close>, \<open>authorId\<close>) that no schema declares; a schema strips
  undeclared keys, so these are absent in every validated record.
\<close>

datatype idref = IdNum int | IdStr string

record import_record =
  r_id :: "idref option"
  r_email :: "string option"
  r_name :: "string option"
  r_role :: "string option"
  r_active :: "bool option"
  r_created_at :: "string option"
  r_updated_at :: "string option"
  r_slug :: "string option"
  r_title :: "string option"
  r_description :: "string option"
  r_body :: "string option"
  r_author_id :: "idref option"
  r_tags :: "string list option"
  r_status :: "string option"
  r_published_at :: "string option option"
  r_article_id :: "idref option"
  r_user_id :: "idref option"
  r_username :: "string option"
  r_password :: "string option"
  r_authorId :: "idref option"

definition empty_record :: import_record where
  "empty_record = \<lparr> r_id = None, r_email = None, r_name = None, r_role = None,
     r_active = None, r_created_at = None, r_updated_at = None, r_slug = None,
     r_title = None, r_description = None, r_body = None, r_author_id = None,
     r_tags = None, r_status = None, r_published_at = None, r_article_id = None,
     r_user_id = None, r_username = None, r_password = None, r_authorId = None \<rparr>"

text \<open>
  A validation failure is a list of issues, each a path and a message. Where the source
  gives no message the library's own text applies; it is written \<open>Invalid input\<close> here.
\<close>

datatype zod_issue = Issue (issue_path: "string list") (issue_message: string)

type_synonym 'a zod = "zod_issue list + 'a"

definition invalid :: "string \<Rightarrow> 'a zod" where
  "invalid msg = Inl [Issue [] msg]"

definition z_string :: "jsval \<Rightarrow> string zod" where
  "z_string v = (case v of JStr s \<Rightarrow> Inr s | _ \<Rightarrow> invalid ''Invalid input'')"

definition z_string_min1 :: "string \<Rightarrow> jsval \<Rightarrow> string zod" where
  "z_string_min1 msg v = (case v of
      JStr s \<Rightarrow> (if 1 \<le> length s then Inr s else invalid msg)
    | _ \<Rightarrow> invalid ''Invalid input'')"

definition z_boolean :: "jsval \<Rightarrow> bool zod" where
  "z_boolean v = (case v of JBool b \<Rightarrow> Inr b | _ \<Rightarrow> invalid ''Invalid input'')"

text \<open>\<open>z.union([z.number().int(), z.string()])\<close> and \<open>z.union([z.number(), z.string()])\<close>.\<close>

definition z_id :: "jsval \<Rightarrow> idref zod" where
  "z_id v = (case v of
      JNum n \<Rightarrow> Inr (IdNum n)
    | JStr s \<Rightarrow> Inr (IdStr s)
    | _ \<Rightarrow> invalid ''Invalid input'')"

definition z_optional :: "(jsval \<Rightarrow> 'a zod) \<Rightarrow> jsval \<Rightarrow> 'a option zod" where
  "z_optional p v = (if v = JUndefined then Inr None else map_sum id Some (p v))"

definition z_nullable :: "(jsval \<Rightarrow> 'a zod) \<Rightarrow> jsval \<Rightarrow> 'a option zod" where
  "z_nullable p v = (if v = JNull then Inr None else map_sum id Some (p v))"

definition z_default :: "'a \<Rightarrow> (jsval \<Rightarrow> 'a zod) \<Rightarrow> jsval \<Rightarrow> 'a zod" where
  "z_default d p v = (if v = JUndefined then Inr d else p v)"

definition z_enum :: "string list \<Rightarrow> jsval \<Rightarrow> string zod" where
  "z_enum allowed v = (case v of
      JStr s \<Rightarrow> (if s \<in> set allowed then Inr s else invalid ''Invalid input'')
    | _ \<Rightarrow> invalid ''Invalid input'')"

text \<open>Issues of several parts add up; the value exists when no part has an issue.\<close>

fun zap :: "('a \<Rightarrow> 'b) zod \<Rightarrow> 'a zod \<Rightarrow> 'b zod" where
  "zap (Inr f) (Inr x) = Inr (f x)"
| "zap (Inl e) (Inr x) = Inl e"
| "zap (Inr f) (Inl e) = Inl e"
| "zap (Inl e) (Inl e') = Inl (e @ e')"

definition at_path :: "string \<Rightarrow> 'a zod \<Rightarrow> 'a zod" where
  "at_path k r = map_sum (map (\<lambda>i. Issue (k # issue_path i) (issue_message i))) id r"

definition field :: "string \<Rightarrow> (jsval \<Rightarrow> 'a zod) \<Rightarrow> jsval \<Rightarrow> 'a zod" where
  "field k p obj = at_path k (p (getProp obj k))"

fun z_string_items :: "nat \<Rightarrow> (nat \<Rightarrow> string) \<Rightarrow> jsval list \<Rightarrow> string list zod" where
  "z_string_items i shw [] = Inr []"
| "z_string_items i shw (v # vs) =
     zap (zap (Inr (#)) (at_path (shw i) (z_string v))) (z_string_items (Suc i) shw vs)"


definition z_string_array :: "(nat \<Rightarrow> string) \<Rightarrow> jsval \<Rightarrow> string list zod" where
  "z_string_array shw v = (case v of
      JArr vs \<Rightarrow> z_string_items 0 shw vs
    | _ \<Rightarrow> invalid ''Invalid input'')"

text \<open>Decimal digits of a number, as \<open>String(n)\<close> and template strings print it.\<close>

fun digits :: "nat \<Rightarrow> string" where
  "digits n = (if n < 10 then [char_of (48 + n)]
               else digits (n div 10) @ [char_of (48 + n mod 10)])"

declare digits.simps [simp del]

definition showInt :: "int \<Rightarrow> string" where
  "showInt i = (if i < 0 then CHR ''-'' # digits (nat (- i)) else digits (nat i))"

subsection \<open>The slug pattern\<close>

text \<open>
  \<open>/^[a-z0-9]+(?:-[a-z0-9]+)*$/i\<close>: the class \<open>[a-z0-9]\<close> under the flag \<open>i\<close>
  matches a digit or a letter of either case. \<open>slugTail b s\<close> reads the rest \<open>s\<close> of the
  input, \<open>b\<close> telling whether the character just read belongs to a group (so that a
  hyphen or the end may follow).
\<close>

definition slugClass :: "char \<Rightarrow> bool" where
  "slugClass c = (is_lower c \<or> is_upper c \<or> is_digit c)"

fun slugTail :: "bool \<Rightarrow> string \<Rightarrow> bool" where
  "slugTail inGroup [] = inGroup"
| "slugTail inGroup (c # cs) =
     (if slugClass c then slugTail True cs
      else if c = CHR ''-'' \<and> inGroup then slugTail False cs
      else False)"

definition slugRegex :: "string \<Rightarrow> bool" where
  "slugRegex s = slugTail False s"

definition z_slug :: "jsval \<Rightarrow> string zod" where
  "z_slug v = (case v of
      JStr s \<Rightarrow> (if slugRegex s then Inr s else invalid ''Must be kebab-case'')
    | _ \<Rightarrow> invalid ''Invalid input'')"

subsection \<open>The three record schemas\<close>

text \<open>
  The pattern behind \<open>z.string().email()\<close> belongs to the validation library; it is the
  parameter \<open>emailOk\<close>.
\<close>

definition z_email :: "(string \<Rightarrow> bool) \<Rightarrow> jsval \<Rightarrow> string zod" where
  "z_email emailOk v = (case v of
      JStr s \<Rightarrow> (if emailOk s then Inr s else invalid ''Invalid email format'')
    | _ \<Rightarrow> invalid ''Invalid input'')"

definition is_object :: "jsval \<Rightarrow> bool" where
  "is_object v = (case v of JObj _ \<Rightarrow> True | _ \<Rightarrow> False)"

definition userRecordSchema :: "(string \<Rightarrow> bool) \<Rightarrow> jsval \<Rightarrow> import_record zod" where
  "userRecordSchema emailOk raw =
     (if \<not> is_object raw then invalid ''Invalid input''
      else
        zap (zap (zap (zap (zap (zap (zap
          (Inr (\<lambda>i e n r a c u. empty_record \<lparr> r_id := Some i, r_email := Some e,
                  r_name := Some n, r_role := r, r_active := Some a,
                  r_created_at := c, r_updated_at := u \<rparr>))
          (field ''id'' z_id raw))
          (field ''email'' (z_email emailOk) raw))
          (field ''name'' (z_string_min1 ''Invalid input'') raw))
          (field ''role'' (z_optional z_string) raw))
          (field ''active'' (z_default True z_boolean) raw))
          (field ''created_at'' (z_optional z_string) raw))
          (field ''updated_at'' (z_optional z_string) raw))"

text \<open>
  The article schema is an object schema under two refinements. \<open>published_at\<close> may be
  a string, \<open>null\<close> or absent: \<open>None\<close> is absent and \<open>Some None\<close> is \<open>null\<close>. A refinement is checked
  on an object that passed the field rules; both are checked, and each adds its issue.
\<close>

definition articleObjectSchema :: "jsval \<Rightarrow> import_record zod" where
  "articleObjectSchema raw =
     (if \<not> is_object raw then invalid ''Invalid input''
      else
        zap (zap (zap (zap (zap (zap (zap (zap (zap
          (Inr (\<lambda>i s t d b a g st p. empty_record \<lparr> r_id := i, r_slug := Some s,
                  r_title := Some t, r_description := d, r_body := Some b,
                  r_author_id := a, r_tags := g, r_status := st,
                  r_published_at := p \<rparr>))
          (field ''id'' (z_optional z_id) raw))
          (field ''slug'' z_slug raw))
          (field ''title'' (z_string_min1 ''Invalid input'') raw))
          (field ''description'' (z_optional (z_string_min1 ''Invalid input'')) raw))
          (field ''body'' (z_string_min1 ''Invalid input'') raw))
          (field ''author_id'' (z_optional z_id) raw))
          (field ''tags'' (z_optional (z_string_array digits)) raw))
          (field ''status'' (z_optional (z_enum [''draft'', ''published''])) raw))
          (field ''published_at'' (z_optional (z_nullable z_string)) raw))"

definition refine :: "('a \<Rightarrow> bool) \<Rightarrow> string \<Rightarrow> 'a \<Rightarrow> zod_issue list" where
  "refine ok msg x = (if ok x then [] else [Issue [] msg])"

definition articleRecordSchema :: "jsval \<Rightarrow> import_record zod" where
  "articleRecordSchema raw = (case articleObjectSchema raw of
      Inl issues \<Rightarrow> Inl issues
    | Inr data \<Rightarrow>
        (let issues =
           refine (\<lambda>d. r_author_id d \<noteq> None) ''author_id is required'' data @
           refine (\<lambda>d. \<not> (r_status d = Some ''draft'' \<and> r_published_at d \<noteq> Some None
                             \<and> r_published_at d \<noteq> None))
                  ''Draft articles must not have published_at'' data
         in if issues = [] then Inr data else Inl issues))"

definition z_body :: "jsval \<Rightarrow> string zod" where
  "z_body v = (case v of
      JStr s \<Rightarrow>
        (if length s < 1 then invalid ''Body is required''
         else if 2500 < length s then invalid ''Body must be <=500 words''
         else Inr s)
    | _ \<Rightarrow> invalid ''Invalid input'')"

definition commentRecordSchema :: "jsval \<Rightarrow> import_record zod" where
  "commentRecordSchema raw =
     (if \<not> is_object raw then invalid ''Invalid input''
      else
        zap (zap (zap (zap (zap
          (Inr (\<lambda>i a u b c. empty_record \<lparr> r_id := i, r_article_id := Some a,
                  r_user_id := Some u, r_body := Some b, r_created_at := c \<rparr>))
          (field ''id'' (z_optional z_id) raw))
          (field ''article_id'' z_id raw))
          (field ''user_id'' z_id raw))
          (field ''body'' z_body raw))
          (field ''created_at'' (z_optional z_string) raw))"

datatype resource = Users | Articles | Comments

definition validateRecord ::
  "(string \<Rightarrow> bool) \<Rightarrow> resource \<Rightarrow> jsval \<Rightarrow> import_record zod" where
  "validateRecord emailOk res raw = (case res of
      Users \<Rightarrow> userRecordSchema emailOk raw
    | Articles \<Rightarrow> articleRecordSchema raw
    | Comments \<Rightarrow> commentRecordSchema raw)"


definition accepted :: "'a zod \<Rightarrow> bool" where
  "accepted r = (case r of Inr _ \<Rightarrow> True | Inl _ \<Rightarrow> False)"

section \<open>The store\<close>

text \<open>
  Rows of the domain tables and of the job tables. A date is a number of milliseconds.
  The statuses a job row takes are the four the code writes.
\<close>

type_synonym date = nat

datatype job_status = Pending | Processing | Completed | Failed

datatype format = Ndjson | Json

record user_row =
  u_id :: int
  u_email :: string
  u_username :: string
  u_password :: string
  u_role :: string
  u_active :: bool
  u_externalId :: "string option"
  u_createdAt :: date
  u_updatedAt :: date

record article_row =
  a_id :: int
  a_slug :: string
  a_title :: string
  a_description :: string
  a_body :: string
  a_externalId :: "string option"
  a_authorId :: int
  a_tagList :: "string list"
  a_status :: "string option"
  a_publishedAt :: "date option"
  a_createdAt :: date

record comment_row =
  c_id :: int
  c_body :: string
  c_articleId :: int
  c_authorId :: int
  c_externalId :: "string option"
  c_createdAt :: date

record import_job =
  ij_id :: int
  ij_resource :: resource
  ij_status :: job_status
  ij_totalRecords :: int
  ij_successCount :: int
  ij_errorCount :: int
  ij_filePath :: "string option"
  ij_startedAt :: "date option"
  ij_completedAt :: "date option"
  ij_createdAt :: date

record export_job =
  ej_id :: int
  ej_resource :: resource
  ej_format :: format
  ej_status :: job_status
  ej_totalRecords :: int
  ej_filePath :: "string option"
  ej_downloadUrl :: "string option"
  ej_filters :: jsval
  ej_fields :: "string list option"
  ej_startedAt :: "date option"
  ej_completedAt :: "date option"
  ej_createdAt :: date

text \<open>
  The data kept with a failed record: the raw line (NDJSON, CSV), the raw array element
  (JSON) or the validated record (a failed upsert).
\<close>

datatype record_data = RawLine string | RawJson jsval | Validated import_record

record import_error =
  ie_importJobId :: int
  ie_recordIndex :: int
  ie_recordData :: record_data
  ie_errorMessage :: string
  ie_errorType :: string

record metric =
  m_startTime :: date
  m_processedCount :: int
  m_errorCount :: int

text \<open>
  The state the pipelines act on: the tables, the sequences behind the row identifiers,
  the file system, the in-memory metrics map and the clock.
\<close>

record world =
  users :: "user_row list"
  articles :: "article_row list"
  comments :: "comment_row list"
  importJobs :: "import_job list"
  exportJobs :: "export_job list"
  importErrors :: "import_error list"
  nextUserId :: int
  nextArticleId :: int
  nextCommentId :: int
  files :: "string \<rightharpoonup> string"
  metrics :: "int \<rightharpoonup> metric"
  clock :: date

text \<open>
  What a call throws: a validation error with its issues, an \<open>Error\<close> with its name and
  message, or a value that is no \<open>Error\<close>. A call returns its outcome together with
  the state it leaves, also when it throws.
\<close>

datatype js_error = ZodError "zod_issue list" | JsError string string | NonError

type_synonym 'a result = "(js_error + 'a) \<times> world"

definition throwError :: "string \<Rightarrow> world \<Rightarrow> 'a result" where
  "throwError msg w = (Inl (JsError ''Error'' msg), w)"

definition knownRequestError :: "string \<Rightarrow> world \<Rightarrow> 'a result" where
  "knownRequestError msg w = (Inl (JsError ''PrismaClientKnownRequestError'' msg), w)"

definition validationError :: "string \<Rightarrow> world \<Rightarrow> 'a result" where
  "validationError msg w = (Inl (JsError ''PrismaClientValidationError'' msg), w)"

subsection \<open>Table operations\<close>

text \<open>
  Modelled from the spec: the relational store, whose schema and client are not among the
  sources. It offers point lookup by a unique key, upsert by a unique key and insert; an
  external identifier is unique when present; an article references its author and a
  comment its article and author by internal id, and a write that would break uniqueness
  or leave a reference dangling fails with a request error. A new row takes the next
  value of its table's sequence.
\<close>

definition user_findUnique_externalId :: "string \<Rightarrow> world \<Rightarrow> user_row option" where
  "user_findUnique_externalId ext w = find (\<lambda>u. u_externalId u = Some ext) (users w)"

definition article_findUnique_externalId :: "string \<Rightarrow> world \<Rightarrow> article_row option" where
  "article_findUnique_externalId ext w = find (\<lambda>a. a_externalId a = Some ext) (articles w)"

definition user_exists :: "int \<Rightarrow> world \<Rightarrow> bool" where
  "user_exists i w = list_ex (\<lambda>u. u_id u = i) (users w)"

definition article_exists :: "int \<Rightarrow> world \<Rightarrow> bool" where
  "article_exists i w = list_ex (\<lambda>a. a_id a = i) (articles w)"

definition user_externalId_taken :: "string option \<Rightarrow> string \<Rightarrow> world \<Rightarrow> bool" where
  "user_externalId_taken ext email w = (case ext of
      None \<Rightarrow> False
    | Some x \<Rightarrow> list_ex (\<lambda>u. u_externalId u = Some x \<and> u_email u \<noteq> email) (users w))"

definition article_externalId_taken :: "string option \<Rightarrow> string \<Rightarrow> world \<Rightarrow> bool" where
  "article_externalId_taken ext slug w = (case ext of
      None \<Rightarrow> False
    | Some x \<Rightarrow> list_ex (\<lambda>a. a_externalId a = Some x \<and> a_slug a \<noteq> slug) (articles w))"

definition user_upsert ::
  "string \<Rightarrow> string \<Rightarrow> string \<Rightarrow> string \<Rightarrow> bool \<Rightarrow> string option \<Rightarrow> world \<Rightarrow> user_row result" where
  "user_upsert email username password role active externalId w =
     (if user_externalId_taken externalId email w
      then knownRequestError ''Unique constraint failed'' w
      else (case find (\<lambda>u. u_email u = email) (users w) of
          Some u \<Rightarrow>
            (let u' = u \<lparr> u_username := username, u_password := password, u_role := role,
                          u_active := active, u_externalId := externalId,
                          u_updatedAt := clock w \<rparr>
             in (Inr u', w \<lparr> users := map (\<lambda>x. if u_email x = email then u' else x) (users w) \<rparr>))
        | None \<Rightarrow>
            (let u' = \<lparr> u_id = nextUserId w, u_email = email, u_username = username,
                        u_password = password, u_role = role, u_active = active,
                        u_externalId = externalId, u_createdAt = clock w,
                        u_updatedAt = clock w \<rparr>
             in (Inr u', w \<lparr> users := users w @ [u'], nextUserId := nextUserId w + 1 \<rparr>))))"

definition article_upsert ::
  "string \<Rightarrow> string \<Rightarrow> string \<Rightarrow> string \<Rightarrow> string option \<Rightarrow> int \<Rightarrow> world \<Rightarrow> article_row result" where
  "article_upsert slug title description body externalId authorId w =
     (if \<not> user_exists authorId w
      then knownRequestError ''No User record was found for a connect'' w
      else if article_externalId_taken externalId slug w
      then knownRequestError ''Unique constraint failed'' w
      else (case find (\<lambda>a. a_slug a = slug) (articles w) of
          Some a \<Rightarrow>
            (let a' = a \<lparr> a_title := title, a_description := description, a_body := body,
                          a_externalId := externalId, a_authorId := authorId \<rparr>
             in (Inr a', w \<lparr> articles := map (\<lambda>x. if a_slug x = slug then a' else x) (articles w) \<rparr>))
        | None \<Rightarrow>
            (let a' = \<lparr> a_id = nextArticleId w, a_slug = slug, a_title = title,
                        a_description = description, a_body = body,
                        a_externalId = externalId, a_authorId = authorId, a_tagList = [],
                        a_status = None, a_publishedAt = None, a_createdAt = clock w \<rparr>
             in (Inr a', w \<lparr> articles := articles w @ [a'],
                              nextArticleId := nextArticleId w + 1 \<rparr>))))"

definition comment_create :: "string \<Rightarrow> int \<Rightarrow> int \<Rightarrow> world \<Rightarrow> comment_row result" where
  "comment_create body articleId authorId w =
     (if \<not> article_exists articleId w \<or> \<not> user_exists authorId w
      then knownRequestError ''Foreign key constraint failed'' w
      else
        (let c = \<lparr> c_id = nextCommentId w, c_body = body, c_articleId = articleId,
                    c_authorId = authorId, c_externalId = None, c_createdAt = clock w \<rparr>
         in (Inr c, w \<lparr> comments := comments w @ [c], nextCommentId := nextCommentId w + 1 \<rparr>)))"


section \<open>The import repository (importRepository.ts)\<close>

text \<open>
  \<open>prisma.importJob.update\<close> fails when no row has the identifier. The optional
  \<open>startedAt\<close> and \<open>completedAt\<close> of \<open>updateJobStatus\<close> are written when given.
\<close>

definition job_exists :: "int \<Rightarrow> world \<Rightarrow> bool" where
  "job_exists jobId w = list_ex (\<lambda>j. ij_id j = jobId) (importJobs w)"

definition importJob_update :: "int \<Rightarrow> (import_job \<Rightarrow> import_job) \<Rightarrow> world \<Rightarrow> import_job result" where
  "importJob_update jobId f w = (case find (\<lambda>j. ij_id j = jobId) (importJobs w) of
      None \<Rightarrow> knownRequestError ''Record to update not found'' w
    | Some j \<Rightarrow>
        (Inr (f j), w \<lparr> importJobs := map (\<lambda>x. if ij_id x = jobId then f x else x) (importJobs w) \<rparr>))"

definition set_opt :: "'a option \<Rightarrow> 'a option \<Rightarrow> 'a option" where
  "set_opt new old = (case new of None \<Rightarrow> old | Some x \<Rightarrow> Some x)"

definition updateJobStatus ::
  "int \<Rightarrow> job_status \<Rightarrow> date option \<Rightarrow> date option \<Rightarrow> world \<Rightarrow> import_job result" where
  "updateJobStatus jobId status startedAt completedAt w =
     importJob_update jobId
       (\<lambda>j. j \<lparr> ij_status := status, ij_startedAt := set_opt startedAt (ij_startedAt j),
                ij_completedAt := set_opt completedAt (ij_completedAt j) \<rparr>) w"

datatype count_update = SetTo int | Increment int

record job_counts =
  totalRecords :: "int option"
  successCount :: "count_update option"
  errorCount :: "count_update option"

definition apply_count :: "count_update option \<Rightarrow> int \<Rightarrow> int" where
  "apply_count u old = (case u of
      None \<Rightarrow> old
    | Some (SetTo n) \<Rightarrow> n
    | Some (Increment n) \<Rightarrow> old + n)"

definition updateJobCounts :: "int \<Rightarrow> job_counts \<Rightarrow> world \<Rightarrow> import_job result" where
  "updateJobCounts jobId counts w =
     importJob_update jobId
       (\<lambda>j. j \<lparr> ij_totalRecords := (case totalRecords counts of None \<Rightarrow> ij_totalRecords j | Some n \<Rightarrow> n),
                ij_successCount := apply_count (successCount counts) (ij_successCount j),
                ij_errorCount := apply_count (errorCount counts) (ij_errorCount j) \<rparr>) w"


text \<open>An error row references its job (a foreign key of the migration).\<close>

definition createImportError :: "import_error \<Rightarrow> world \<Rightarrow> import_error result" where
  "createImportError d w =
     (if \<not> job_exists (ie_importJobId d) w
      then knownRequestError ''Foreign key constraint failed'' w
      else (Inr d, w \<lparr> importErrors := importErrors w @ [d] \<rparr>))"

subsection \<open>Identifier references\<close>

text \<open>
  \<open>parseInt\<close> skips leading white space, takes a sign, then reads digits (hexadecimal
  after \<open>0x\<close>) as far as they go; with no digit the result is \<open>NaN\<close>, here \<open>None\<close>.
\<close>

definition hexVal :: "char \<Rightarrow> nat option" where
  "hexVal c =
     (if is_digit c then Some (of_char c - 48)
      else if CHR ''a'' \<le> c \<and> c \<le> CHR ''f'' then Some (of_char c - 87)
      else if CHR ''A'' \<le> c \<and> c \<le> CHR ''F'' then Some (of_char c - 55)
      else None)"

definition digitVal :: "nat \<Rightarrow> char \<Rightarrow> nat option" where
  "digitVal radix c = (case hexVal c of
      None \<Rightarrow> None
    | Some d \<Rightarrow> (if d < radix then Some d else None))"

fun readDigits :: "nat \<Rightarrow> string \<Rightarrow> nat option \<Rightarrow> nat option" where
  "readDigits radix [] acc = acc"
| "readDigits radix (c # cs) acc = (case digitVal radix c of
      None \<Rightarrow> acc
    | Some d \<Rightarrow> readDigits radix cs (Some ((case acc of None \<Rightarrow> 0 | Some a \<Rightarrow> a) * radix + d)))"

definition parseInt :: "string \<Rightarrow> int option" where
  "parseInt s =
     (let s1 = dropWhile is_space s;
          neg = (s1 \<noteq> [] \<and> hd s1 = CHR ''-'');
          s2 = (if s1 \<noteq> [] \<and> (hd s1 = CHR ''-'' \<or> hd s1 = CHR ''+'') then tl s1 else s1);
          hex = (startsWith s2 ''0x'' \<or> startsWith s2 ''0X'');
          r = (if hex then readDigits 16 (drop 2 s2) None else readDigits 10 s2 None)
      in (case r of
            None \<Rightarrow> None
          | Some n \<Rightarrow> Some (if neg then - int n else int n)))"

fun idref_truthy :: "idref option \<Rightarrow> bool" where
  "idref_truthy None = False"
| "idref_truthy (Some (IdNum n)) = (n \<noteq> 0)"
| "idref_truthy (Some (IdStr s)) = (s \<noteq> [])"

fun idref_text :: "idref option \<Rightarrow> string" where
  "idref_text None = ''undefined''"
| "idref_text (Some (IdNum n)) = showInt n"
| "idref_text (Some (IdStr s)) = s"

text \<open>
  \<open>typeof id === 'string' && id.includes('-') ? id : null\<close>, the external identifier a
  user or article record carries.
\<close>

fun externalIdOf :: "idref option \<Rightarrow> string option" where
  "externalIdOf (Some (IdStr s)) = (if str_includes s (CHR ''-'') then Some s else None)"
| "externalIdOf _ = None"

text \<open>
  The else branch of a reference: a number is taken as it is, anything else goes
  through \<open>parseInt\<close> (an absent reference is the text \<open>undefined\<close>).
\<close>

fun directId :: "idref option \<Rightarrow> int option" where
  "directId (Some (IdNum n)) = Some n"
| "directId r = parseInt (idref_text r)"

subsection \<open>upsertUser, upsertArticle, upsertComment\<close>

text \<open>The operand of \<open>||\<close> that counts: a string that is present and not empty.\<close>

definition truthyStr :: "string option \<Rightarrow> string option" where
  "truthyStr s = (case s of Some (c # cs) \<Rightarrow> Some (c # cs) | _ \<Rightarrow> None)"

definition upsertUser :: "import_record \<Rightarrow> world \<Rightarrow> user_row result" where
  "upsertUser record w =
     (let fromName = map_option (\<lambda>n. removeSpaces (toLowerCase n)) (r_name record);
          username =
            (case truthyStr (r_username record) of
               Some u \<Rightarrow> Inr u
             | None \<Rightarrow>
                 (case truthyStr fromName of
                    Some u \<Rightarrow> Inr u
                  | None \<Rightarrow>
                      (case r_email record of
                         None \<Rightarrow> Inl (JsError ''TypeError'' ''Cannot read properties of undefined'')
                       | Some e \<Rightarrow> Inr (hd (split (CHR ''@'') e)))));
          password = (case truthyStr (r_password record) of
                        Some p \<Rightarrow> p | None \<Rightarrow> ''imported-user-change-me'');
          role = (case truthyStr (r_role record) of Some r \<Rightarrow> r | None \<Rightarrow> ''reader'');
          active = (case r_active record of Some a \<Rightarrow> a | None \<Rightarrow> True);
          externalId = externalIdOf (r_id record)
      in (case username of
            Inl e \<Rightarrow> (Inl e, w)
          | Inr uname \<Rightarrow>
              (case r_email record of
                 None \<Rightarrow> validationError ''Argument email is missing'' w
               | Some email \<Rightarrow> user_upsert email uname password role active externalId w)))"

text \<open>
  A reference of an article or a comment: by external identifier when it is a string
  that contains a hyphen, directly otherwise. \<open>fieldName\<close> and \<open>table\<close> are the words
  of the messages, which the source writes out at each of its three references.
\<close>

definition resolveRef ::
  "string \<Rightarrow> string \<Rightarrow> (string \<Rightarrow> int option) \<Rightarrow> idref option \<Rightarrow> js_error + int" where
  "resolveRef fieldName table lookup ref =
     (case ref of
        Some (IdStr s) \<Rightarrow>
          (if str_includes s (CHR ''-'')
           then (case lookup s of
                   None \<Rightarrow> Inl (JsError ''Error''
                     (''Foreign key violation: '' @ fieldName @ '' \"'' @ s @
                      ''\" does not exist ('' @ table @ '' with externalId not found)''))
                 | Some i \<Rightarrow> Inr i)
           else (case directId ref of
                   None \<Rightarrow> Inl (JsError ''Error'' (''Invalid '' @ fieldName @ '': '' @ idref_text ref))
                 | Some n \<Rightarrow> Inr n))
      | _ \<Rightarrow>
          (case directId ref of
             None \<Rightarrow> Inl (JsError ''Error'' (''Invalid '' @ fieldName @ '': '' @ idref_text ref))
           | Some n \<Rightarrow> Inr n))"

definition upsertArticle :: "import_record \<Rightarrow> world \<Rightarrow> article_row result" where
  "upsertArticle record w =
     (let authorId = (if idref_truthy (r_author_id record) then r_author_id record
                      else r_authorId record)
      in (case resolveRef ''author_id'' ''user''
                  (\<lambda>s. map_option u_id (user_findUnique_externalId s w)) authorId of
            Inl e \<Rightarrow> (Inl e, w)
          | Inr authorIdInt \<Rightarrow>
              (let externalId = externalIdOf (r_id record);
                   description = (case truthyStr (r_description record) of
                                    Some d \<Rightarrow> Some d | None \<Rightarrow> r_title record)
               in (case (r_slug record, r_title record, description, r_body record) of
                     (Some slug, Some title, Some descr, Some body) \<Rightarrow>
                       article_upsert slug title descr body externalId authorIdInt w
                   | _ \<Rightarrow> validationError ''Argument is missing'' w))))"

definition upsertComment :: "import_record \<Rightarrow> world \<Rightarrow> comment_row result" where
  "upsertComment record w =
     (case resolveRef ''article_id'' ''article''
             (\<lambda>s. map_option a_id (article_findUnique_externalId s w)) (r_article_id record) of
        Inl e \<Rightarrow> (Inl e, w)
      | Inr articleIdInt \<Rightarrow>
          (case resolveRef ''user_id'' ''user''
                  (\<lambda>s. map_option u_id (user_findUnique_externalId s w)) (r_user_id record) of
             Inl e \<Rightarrow> (Inl e, w)
           | Inr userIdInt \<Rightarrow>
               (case r_body record of
                  None \<Rightarrow> validationError ''Argument body is missing'' w
                | Some body \<Rightarrow> comment_create body articleIdInt userIdInt w)))"


section \<open>The import processor (importProcessor.ts)\<close>

definition BATCH_SIZE :: nat where
  "BATCH_SIZE = 1000"

subsection \<open>recordError and processBatch\<close>

definition issueText :: "zod_issue \<Rightarrow> string" where
  "issueText e = join ''.'' (issue_path e) @ '': '' @ issue_message e"

definition errorRow :: "int \<Rightarrow> nat \<Rightarrow> record_data \<Rightarrow> js_error \<Rightarrow> import_error" where
  "errorRow jobId recordIndex recordData err =
     \<lparr> ie_importJobId = jobId, ie_recordIndex = int recordIndex, ie_recordData = recordData,
       ie_errorMessage = (case err of
            ZodError issues \<Rightarrow> join ''; '' (map issueText issues)
          | JsError name msg \<Rightarrow> msg
          | NonError \<Rightarrow> ''Unknown error''),
       ie_errorType = (case err of
            ZodError issues \<Rightarrow> ''VALIDATION_ERROR''
          | JsError name msg \<Rightarrow> name
          | NonError \<Rightarrow> ''UNKNOWN_ERROR'') \<rparr>"

definition recordError :: "int \<Rightarrow> nat \<Rightarrow> record_data \<Rightarrow> js_error \<Rightarrow> world \<Rightarrow> import_error result" where
  "recordError jobId recordIndex recordData err w =
     createImportError (errorRow jobId recordIndex recordData err) w"

text \<open>
  One upsert, chosen by the resource; the row it returns is not used.
\<close>

definition upsert :: "resource \<Rightarrow> import_record \<Rightarrow> world \<Rightarrow> unit result" where
  "upsert res record w = (case res of
      Users \<Rightarrow> (case upsertUser record w of (r, w') \<Rightarrow> (map_sum id (\<lambda>_. ()) r, w'))
    | Articles \<Rightarrow> (case upsertArticle record w of (r, w') \<Rightarrow> (map_sum id (\<lambda>_. ()) r, w'))
    | Comments \<Rightarrow> (case upsertComment record w of (r, w') \<Rightarrow> (map_sum id (\<lambda>_. ()) r, w')))"

type_synonym batch_item = "nat \<times> import_record"

record batch_result =
  success :: nat
  error :: nat

text \<open>
  The loop of \<open>processBatch\<close>: a failed upsert is caught, recorded and counted. Only a
  failure of the recording itself leaves the loop.
\<close>

fun processItems :: "int \<Rightarrow> resource \<Rightarrow> batch_item list \<Rightarrow> batch_result \<Rightarrow> world \<Rightarrow> batch_result result" where
  "processItems jobId res [] acc w = (Inr acc, w)"
| "processItems jobId res ((recordIndex, record) # items) acc w =
     (case upsert res record w of
        (Inr _, w1) \<Rightarrow> processItems jobId res items (acc \<lparr> success := success acc + 1 \<rparr>) w1
      | (Inl err, w1) \<Rightarrow>
          (case recordError jobId recordIndex (Validated record) err w1 of
             (Inl e, w2) \<Rightarrow> (Inl e, w2)
           | (Inr _, w2) \<Rightarrow> processItems jobId res items (acc \<lparr> error := error acc + 1 \<rparr>) w2))"

definition processBatch :: "int \<Rightarrow> resource \<Rightarrow> batch_item list \<Rightarrow> world \<Rightarrow> batch_result result" where
  "processBatch jobId res batch w =
     (case processItems jobId res batch \<lparr> success = 0, error = 0 \<rparr> w of
        (Inl e, w1) \<Rightarrow> (Inl e, w1)
      | (Inr r, w1) \<Rightarrow>
          (case updateJobCounts jobId
                  \<lparr> totalRecords = None,
                    successCount = Some (Increment (int (success r))),
                    errorCount = Some (Increment (int (error r))) \<rparr> w1 of
             (Inl e, w2) \<Rightarrow> (Inl e, w2)
           | (Inr _, w2) \<Rightarrow> (Inr r, w2)))"


section \<open>What the pipelines take from their environment\<close>

text \<open>
  Functions of the language and of the libraries that the pipelines call and the
  sources do not define: the e-mail pattern of the validation library, \<open>JSON.parse\<close>
  (with the message of its syntax error), \<open>JSON.stringify\<close>, \<open>Number\<close> on a CSV cell
  (\<open>None\<close> for \<open>NaN\<close>), \<open>Date.toISOString\<close>, and the answer of a server to a download.
\<close>

datatype http_response = NetworkError string | Response nat string

record env =
  emailOk :: "string \<Rightarrow> bool"
  jsonParse :: "string \<Rightarrow> string + jsval"
  jsonStringify :: "jsval \<Rightarrow> string"
  toNumber :: "string \<Rightarrow> int option"
  toISOString :: "date \<Rightarrow> string"
  httpGet :: "string \<Rightarrow> http_response"

section \<open>The export processor (exportProcessor.ts)\<close>

subsection \<open>Formatting\<close>

text \<open>
  A record read by a cursor, as the formatters see it: an object whose keys may be
  absent. \<open>author\<close> and \<open>article\<close> are the included relations, of which the
  formatters read the external identifier only.
\<close>

record related =
  rel_externalId :: "string option"

record cursor_record =
  k_id :: "int option"
  k_externalId :: "string option"
  k_email :: "string option"
  k_username :: "string option"
  k_role :: "string option"
  k_active :: "bool option"
  k_createdAt :: "date option"
  k_updatedAt :: "date option"
  k_slug :: "string option"
  k_title :: "string option"
  k_body :: "string option"
  k_authorId :: "int option"
  k_author :: "related option"
  k_tagList :: "string list option"
  k_status :: "string option"
  k_publishedAt :: "date option"
  k_articleId :: "int option"
  k_article :: "related option"

definition empty_cursor_record :: cursor_record where
  "empty_cursor_record = \<lparr> k_id = None, k_externalId = None, k_email = None,
     k_username = None, k_role = None, k_active = None, k_createdAt = None,
     k_updatedAt = None, k_slug = None, k_title = None, k_body = None, k_authorId = None,
     k_author = None, k_tagList = None, k_status = None, k_publishedAt = None,
     k_articleId = None, k_article = None \<rparr>"

type_synonym formatted_record = "(string \<times> jsval) list"

definition date_val :: "env \<Rightarrow> date option \<Rightarrow> jsval" where
  "date_val E d = (case d of None \<Rightarrow> JUndefined | Some t \<Rightarrow> JStr (toISOString E t))"

text \<open>\<open>rel?.externalId\<close>\<close>

definition rel_val :: "related option \<Rightarrow> jsval" where
  "rel_val r = (case r of None \<Rightarrow> JUndefined | Some x \<Rightarrow> str_val (rel_externalId x))"

text \<open>
  The objects of the pipelines are written as object literals, so they inherit from
  \<open>Object.prototype\<close>. These are its properties: eleven methods and the accessor
  \<open>__proto__\<close>, which reads as \<open>Object.prototype\<close> itself, an object without an
  enumerable property.
\<close>

definition objectPrototype :: "(string \<times> jsval) list" where
  "objectPrototype =
     [(''constructor'', JFun ''Object''),
      (''__defineGetter__'', JFun ''__defineGetter__''),
      (''__defineSetter__'', JFun ''__defineSetter__''),
      (''hasOwnProperty'', JFun ''hasOwnProperty''),
      (''__lookupGetter__'', JFun ''__lookupGetter__''),
      (''__lookupSetter__'', JFun ''__lookupSetter__''),
      (''isPrototypeOf'', JFun ''isPrototypeOf''),
      (''propertyIsEnumerable'', JFun ''propertyIsEnumerable''),
      (''toString'', JFun ''toString''),
      (''valueOf'', JFun ''valueOf''),
      (''__proto__'', JObj []),
      (''toLocaleString'', JFun ''toLocaleString'')]"

text \<open>
  \<open>obj[key]\<close>: the own property with this key (whatever its value, \<open>undefined\<close>
  included), else the property inherited from \<open>Object.prototype\<close>, else \<open>undefined\<close>.
\<close>

definition getField :: "formatted_record \<Rightarrow> string \<Rightarrow> jsval" where
  "getField obj k = (case map_of obj k of
      Some v \<Rightarrow> v
    | None \<Rightarrow> (case map_of objectPrototype k of Some v \<Rightarrow> v | None \<Rightarrow> JUndefined))"

text \<open>
  \<open>obj[key] = v\<close>: the own property with this key is written in place, or added at the
  end. The key \<open>__proto__\<close> is the exception: the assignment runs the inherited setter,
  which makes no own property; the values assigned under this key here are primitives,
  which the setter ignores, or \<open>Object.prototype\<close>, which the object inherits from
  already, so the object stays as it is.
\<close>

fun defineOwn :: "string \<Rightarrow> jsval \<Rightarrow> formatted_record \<Rightarrow> formatted_record" where
  "defineOwn k v [] = [(k, v)]"
| "defineOwn k v ((k', v') # kvs) =
     (if k = k' then (k, v) # kvs else (k', v') # defineOwn k v kvs)"

definition setField :: "string \<Rightarrow> jsval \<Rightarrow> formatted_record \<Rightarrow> formatted_record" where
  "setField k v obj = (if k = ''__proto__'' then obj else defineOwn k v obj)"

text \<open>
  The field selection that the three formatters share: with a field list, the fields of
  the list whose value read from the full record is not \<open>undefined\<close>; without one, the
  full record.
\<close>

definition selectFields :: "formatted_record \<Rightarrow> string list option \<Rightarrow> formatted_record" where
  "selectFields formatted fieldList = (case fieldList of
      None \<Rightarrow> formatted
    | Some fs \<Rightarrow>
        fold (\<lambda>f filtered.
                if getField formatted f \<noteq> JUndefined
                then setField f (getField formatted f) filtered else filtered) fs [])"

definition formatUserRecord :: "env \<Rightarrow> cursor_record \<Rightarrow> string list option \<Rightarrow> formatted_record" where
  "formatUserRecord E user fieldList =
     selectFields
       [(''id'', js_or (str_val (k_externalId user)) (num_val (k_id user))),
        (''email'', str_val (k_email user)),
        (''name'', str_val (k_username user)),
        (''role'', js_or (str_val (k_role user)) (JStr ''user'')),
        (''active'', js_nullish (bool_val (k_active user)) (JBool True)),
        (''created_at'', date_val E (k_createdAt user)),
        (''updated_at'', date_val E (k_updatedAt user))] fieldList"

definition formatArticleRecord :: "env \<Rightarrow> cursor_record \<Rightarrow> string list option \<Rightarrow> formatted_record" where
  "formatArticleRecord E article fieldList =
     selectFields
       [(''id'', js_or (str_val (k_externalId article)) (num_val (k_id article))),
        (''slug'', str_val (k_slug article)),
        (''title'', str_val (k_title article)),
        (''body'', str_val (k_body article)),
        (''author_id'', js_or (rel_val (k_author article)) (num_val (k_authorId article))),
        (''tags'', (case k_tagList article of
                      None \<Rightarrow> JArr []
                    | Some names \<Rightarrow> JArr (map JStr names))),
        (''status'', js_or (str_val (k_status article)) (JStr ''published'')),
        (''published_at'',
           js_or (js_or (date_val E (k_publishedAt article)) (date_val E (k_createdAt article)))
                 JNull)] fieldList"

definition formatCommentRecord :: "env \<Rightarrow> cursor_record \<Rightarrow> string list option \<Rightarrow> formatted_record" where
  "formatCommentRecord E comment fieldList =
     selectFields
       [(''id'', js_or (str_val (k_externalId comment)) (num_val (k_id comment))),
        (''article_id'', js_or (rel_val (k_article comment)) (num_val (k_articleId comment))),
        (''user_id'', js_or (rel_val (k_author comment)) (num_val (k_authorId comment))),
        (''body'', str_val (k_body comment)),
        (''created_at'', date_val E (k_createdAt comment))] fieldList"

definition formatRecord ::
  "env \<Rightarrow> resource \<Rightarrow> cursor_record \<Rightarrow> string list option \<Rightarrow> formatted_record" where
  "formatRecord E res record fieldList = (case res of
      Users \<Rightarrow> formatUserRecord E record fieldList
    | Articles \<Rightarrow> formatArticleRecord E record fieldList
    | Comments \<Rightarrow> formatCommentRecord E record fieldList)"

subsection \<open>Cursors\<close>

text \<open>The objects that \<open>findMany\<close> returns for the rows, with the relations it includes.\<close>

definition user_record :: "user_row \<Rightarrow> cursor_record" where
  "user_record u = empty_cursor_record \<lparr> k_id := Some (u_id u),
     k_externalId := u_externalId u, k_email := Some (u_email u),
     k_username := Some (u_username u), k_role := Some (u_role u),
     k_active := Some (u_active u), k_createdAt := Some (u_createdAt u),
     k_updatedAt := Some (u_updatedAt u) \<rparr>"

definition related_user :: "int \<Rightarrow> world \<Rightarrow> related option" where
  "related_user i w = map_option (\<lambda>u. \<lparr> rel_externalId = u_externalId u \<rparr>)
     (find (\<lambda>u. u_id u = i) (users w))"

definition related_article :: "int \<Rightarrow> world \<Rightarrow> related option" where
  "related_article i w = map_option (\<lambda>a. \<lparr> rel_externalId = a_externalId a \<rparr>)
     (find (\<lambda>a. a_id a = i) (articles w))"

definition article_record :: "world \<Rightarrow> article_row \<Rightarrow> cursor_record" where
  "article_record w a = empty_cursor_record \<lparr> k_id := Some (a_id a),
     k_externalId := a_externalId a, k_slug := Some (a_slug a), k_title := Some (a_title a),
     k_body := Some (a_body a), k_authorId := Some (a_authorId a),
     k_author := related_user (a_authorId a) w, k_tagList := Some (a_tagList a),
     k_status := a_status a, k_publishedAt := a_publishedAt a,
     k_createdAt := Some (a_createdAt a) \<rparr>"

definition comment_record :: "world \<Rightarrow> comment_row \<Rightarrow> cursor_record" where
  "comment_record w c = empty_cursor_record \<lparr> k_id := Some (c_id c),
     k_externalId := c_externalId c, k_body := Some (c_body c),
     k_articleId := Some (c_articleId c), k_article := related_article (c_articleId c) w,
     k_authorId := Some (c_authorId c), k_author := related_user (c_authorId c) w,
     k_createdAt := Some (c_createdAt c) \<rparr>"

text \<open>
  \<open>findMany\<close> with a filter, ordered by identifier, skipping \<open>skip\<close> rows and taking at
  most \<open>n\<close>; and the paged scan of a cursor, which goes on while a page is full.
\<close>

definition findMany :: "('r \<Rightarrow> bool) \<Rightarrow> ('r \<Rightarrow> int) \<Rightarrow> nat \<Rightarrow> nat \<Rightarrow> 'r list \<Rightarrow> 'r list" where
  "findMany wh key n skip rows = take n (drop skip (sort_key key (filter wh rows)))"

function pagedScan :: "('r \<Rightarrow> bool) \<Rightarrow> ('r \<Rightarrow> int) \<Rightarrow> 'r list \<Rightarrow> nat \<Rightarrow> 'r list" where
  "pagedScan wh key rows skip =
     (let page = findMany wh key 1000 skip rows
      in if length page = 1000 then page @ pagedScan wh key rows (skip + 1000) else page)"
  by pat_completeness auto
termination
proof (relation "measure (\<lambda>(wh, key, rows, skip). length rows - skip)")
  show "wf (measure (\<lambda>(wh, key, rows, skip). length rows - skip))"
    by simp
next
  fix wh :: "'r \<Rightarrow> bool" and key :: "'r \<Rightarrow> int" and rows :: "'r list" and skip :: nat
    and page :: "'r list"
  assume "page = findMany wh key 1000 skip rows" and "length page = 1000"
  then have "skip + 1000 \<le> length (filter wh rows)"
    by (simp add: findMany_def)
  then have "skip + 1000 \<le> length rows"
    using length_filter_le [of wh rows] by (rule le_trans)
  then show "((wh, key, rows, skip + 1000), (wh, key, rows, skip))
      \<in> measure (\<lambda>(wh, key, rows, skip). length rows - skip)"
    by simp
qed

declare pagedScan.simps [simp del]

text \<open>\<open>String(v)\<close>, which the cursors apply to a filter value before \<open>parseInt\<close>.\<close>

fun jsString :: "jsval \<Rightarrow> string" where
  "jsString JUndefined = ''undefined''"
| "jsString JNull = ''null''"
| "jsString (JBool b) = (if b then ''true'' else ''false'')"
| "jsString (JNum n) = showInt n"
| "jsString (JStr s) = s"
| "jsString (JArr vs) =
     join '','' (map (\<lambda>v. if v = JUndefined \<or> v = JNull then [] else jsString v) vs)"
| "jsString (JObj kvs) = ''[object Object]''"
| "jsString (JFun name) = ''function '' @ name @ ''() { [native code] }''"

text \<open>
  A filter value that selects rows by an integer column: a number as it is, anything
  else through \<open>parseInt(String(v))\<close>; the store refuses \<open>NaN\<close>. A filter value for a text
  column must be a string.
\<close>

definition intFilter :: "jsval \<Rightarrow> js_error + int option" where
  "intFilter v =
     (if \<not> truthy v then Inr None
      else (case v of
              JNum n \<Rightarrow> Inr (Some n)
            | _ \<Rightarrow> (case parseInt (jsString v) of
                      None \<Rightarrow> Inl (JsError ''PrismaClientValidationError'' ''Invalid value'')
                    | Some n \<Rightarrow> Inr (Some n))))"

definition strFilter :: "jsval \<Rightarrow> js_error + string option" where
  "strFilter v =
     (if \<not> truthy v then Inr None
      else (case v of
              JStr s \<Rightarrow> Inr (Some s)
            | _ \<Rightarrow> Inl (JsError ''PrismaClientValidationError'' ''Invalid value'')))"

definition matches :: "'a option \<Rightarrow> 'a \<Rightarrow> bool" where
  "matches wanted x = (case wanted of None \<Rightarrow> True | Some y \<Rightarrow> x = y)"

definition getUserCursor :: "jsval \<Rightarrow> world \<Rightarrow> js_error + cursor_record list" where
  "getUserCursor filters w =
     (let active = (if getProp filters ''active'' \<noteq> JUndefined
                    then Some (getProp filters ''active'' = JStr ''true''
                               \<or> getProp filters ''active'' = JBool True)
                    else None)
      in (case strFilter (getProp filters ''role'') of
            Inl e \<Rightarrow> Inl e
          | Inr role \<Rightarrow>
              Inr (map user_record
                     (pagedScan (\<lambda>u. matches active (u_active u) \<and> matches role (u_role u))
                        u_id (users w) 0))))"

definition getArticleCursor :: "jsval \<Rightarrow> world \<Rightarrow> js_error + cursor_record list" where
  "getArticleCursor filters w =
     (case strFilter (getProp filters ''status'') of
        Inl e \<Rightarrow> Inl e
      | Inr status \<Rightarrow>
          (case intFilter (getProp filters ''authorId'') of
             Inl e \<Rightarrow> Inl e
           | Inr authorId \<Rightarrow>
               Inr (map (article_record w)
                      (pagedScan (\<lambda>a. (status = None \<or> a_status a = status)
                                      \<and> matches authorId (a_authorId a))
                         a_id (articles w) 0))))"

definition getCommentCursor :: "jsval \<Rightarrow> world \<Rightarrow> js_error + cursor_record list" where
  "getCommentCursor filters w =
     (case intFilter (getProp filters ''articleId'') of
        Inl e \<Rightarrow> Inl e
      | Inr articleId \<Rightarrow>
          (case intFilter (getProp filters ''authorId'') of
             Inl e \<Rightarrow> Inl e
           | Inr authorId \<Rightarrow>
               Inr (map (comment_record w)
                      (pagedScan (\<lambda>c. matches articleId (c_articleId c)
                                      \<and> matches authorId (c_authorId c))
                         c_id (comments w) 0))))"

definition getResourceCursor :: "resource \<Rightarrow> jsval \<Rightarrow> world \<Rightarrow> js_error + cursor_record list" where
  "getResourceCursor res filters w = (case res of
      Users \<Rightarrow> getUserCursor filters w
    | Articles \<Rightarrow> getArticleCursor filters w
    | Comments \<Rightarrow> getCommentCursor filters w)"


section \<open>The metrics tracker (importMetrics.ts)\<close>

definition startTracking :: "int \<Rightarrow> world \<Rightarrow> world" where
  "startTracking jobId w =
     w \<lparr> metrics := (metrics w)(jobId \<mapsto>
           \<lparr> m_startTime = clock w, m_processedCount = 0, m_errorCount = 0 \<rparr>) \<rparr>"

definition updateProgress :: "int \<Rightarrow> int \<Rightarrow> int \<Rightarrow> world \<Rightarrow> world" where
  "updateProgress jobId processed errors w = (case metrics w jobId of
      None \<Rightarrow> w
    | Some m \<Rightarrow> w \<lparr> metrics := (metrics w)(jobId \<mapsto>
                   m \<lparr> m_processedCount := processed, m_errorCount := errors \<rparr>) \<rparr>)"

definition finishTracking :: "int \<Rightarrow> world \<Rightarrow> world" where
  "finishTracking jobId w = w \<lparr> metrics := (metrics w)(jobId := None) \<rparr>"

section \<open>The export job (exportRepository.ts, processExportJob)\<close>

record export_data =
  d_startedAt :: "date option"
  d_completedAt :: "date option"
  d_filePath :: "string option"
  d_downloadUrl :: "string option"
  d_totalRecords :: "int option"

definition no_data :: export_data where
  "no_data = \<lparr> d_startedAt = None, d_completedAt = None, d_filePath = None,
     d_downloadUrl = None, d_totalRecords = None \<rparr>"

definition exportUpdateJobStatus ::
  "int \<Rightarrow> job_status \<Rightarrow> export_data \<Rightarrow> world \<Rightarrow> export_job result" where
  "exportUpdateJobStatus jobId status d w =
     (let f = (\<lambda>j. j \<lparr> ej_status := status,
                       ej_startedAt := set_opt (d_startedAt d) (ej_startedAt j),
                       ej_completedAt := set_opt (d_completedAt d) (ej_completedAt j),
                       ej_filePath := set_opt (d_filePath d) (ej_filePath j),
                       ej_downloadUrl := set_opt (d_downloadUrl d) (ej_downloadUrl j),
                       ej_totalRecords := (case d_totalRecords d of
                                             None \<Rightarrow> ej_totalRecords j | Some n \<Rightarrow> n) \<rparr>)
      in (case find (\<lambda>j. ej_id j = jobId) (exportJobs w) of
            None \<Rightarrow> knownRequestError ''Record to update not found'' w
          | Some j \<Rightarrow>
              (Inr (f j),
               w \<lparr> exportJobs := map (\<lambda>x. if ej_id x = jobId then f x else x) (exportJobs w) \<rparr>)))"

definition formatName :: "format \<Rightarrow> string" where
  "formatName f = (case f of Ndjson \<Rightarrow> ''ndjson'' | Json \<Rightarrow> ''json'')"

text \<open>
  What the job writes to its file: one object and a newline per record, or an array
  whose objects are separated by a comma and a newline.
\<close>

definition exportContent ::
  "env \<Rightarrow> format \<Rightarrow> resource \<Rightarrow> string list option \<Rightarrow> cursor_record list \<Rightarrow> string" where
  "exportContent E fmt res fieldList records =
     (let objects = map (\<lambda>r. jsonStringify E (JObj (formatRecord E res r fieldList))) records
      in (case fmt of
            Ndjson \<Rightarrow> concat (map (\<lambda>s. s @ [CHR 0x0A]) objects)
          | Json \<Rightarrow> CHR ''['' # CHR 0x0A # join [CHR '','', CHR 0x0A] objects @ [CHR 0x0A, CHR '']'']))"

text \<open>
  The first statement of the job, and the rest: the file, the records of the cursor,
  the final status. A failure inside the \<open>try\<close> block marks the job failed and is thrown
  again. The file is created before the cursor is read; when the cursor fails it holds
  what was written until then.
\<close>

definition beginExportJob :: "int \<Rightarrow> world \<Rightarrow> export_job result" where
  "beginExportJob jobId w =
     exportUpdateJobStatus jobId Processing (no_data \<lparr> d_startedAt := Some (clock w) \<rparr>)
       (startTracking jobId w)"

definition failExportJob :: "int \<Rightarrow> js_error \<Rightarrow> world \<Rightarrow> unit result" where
  "failExportJob jobId e w =
     (case exportUpdateJobStatus jobId Failed (no_data \<lparr> d_completedAt := Some (clock w) \<rparr>) w of
        (Inl e', w') \<Rightarrow> (Inl e', w')
      | (Inr _, w') \<Rightarrow> (Inl e, finishTracking jobId w'))"

definition runExportJob :: "env \<Rightarrow> int \<Rightarrow> export_job \<Rightarrow> world \<Rightarrow> unit result" where
  "runExportJob E jobId job w =
     (let filePath = ''exports/export-'' @ showInt jobId @ ''-'' @ digits (clock w) @ ''.''
                       @ formatName (ej_format job);
          opened = (case ej_format job of Ndjson \<Rightarrow> [] | Json \<Rightarrow> [CHR ''['', CHR 0x0A])
      in (case getResourceCursor (ej_resource job) (ej_filters job) w of
            Inl e \<Rightarrow> failExportJob jobId e (w \<lparr> files := (files w)(filePath \<mapsto> opened) \<rparr>)
          | Inr records \<Rightarrow>
              (let n = length records;
                   w1 = w \<lparr> files := (files w)(filePath \<mapsto>
                              exportContent E (ej_format job) (ej_resource job)
                                (ej_fields job) records) \<rparr>;
                   w2 = (if 5000 \<le> n then updateProgress jobId (int (5000 * (n div 5000))) 0 w1
                         else w1)
               in (case exportUpdateJobStatus jobId Completed
                         (no_data \<lparr> d_completedAt := Some (clock w2),
                                    d_filePath := Some filePath,
                                    d_downloadUrl := Some (''/api/v1/exports/'' @ showInt jobId @ ''/download''),
                                    d_totalRecords := Some (int n) \<rparr>) w2 of
                     (Inl e, w3) \<Rightarrow> failExportJob jobId e w3
                   | (Inr _, w3) \<Rightarrow> (Inr (), finishTracking jobId w3)))))"

definition processExportJob :: "env \<Rightarrow> int \<Rightarrow> world \<Rightarrow> unit result" where
  "processExportJob E jobId w = (case beginExportJob jobId w of
      (Inl e, w1) \<Rightarrow> (Inl e, w1)
    | (Inr job, w1) \<Rightarrow> runExportJob E jobId job w1)"


section \<open>Reading the source of an import\<close>

text \<open>
  The lines that \<open>readline\<close> yields for the content of a file: a line ends at a line
  feed, at a carriage return, or at the two in a row; a last line without an end is
  yielded when it is not empty.
\<close>

fun linesFrom :: "bool \<Rightarrow> string \<Rightarrow> string \<Rightarrow> string list" where
  "linesFrom afterCR cur [] = (if cur = [] then [] else [cur])"
| "linesFrom afterCR cur (c # cs) =
     (if c = CHR 0x0D then cur # linesFrom True [] cs
      else if c = CHR 0x0A then
        (if afterCR then linesFrom False [] cs else cur # linesFrom False [] cs)
      else linesFrom False (cur @ [c]) cs)"

definition readLines :: "string \<Rightarrow> string list" where
  "readLines content = linesFrom False [] content"

text \<open>The state of a reading loop: its counters, its batch and, for CSV, the headers.\<close>

record loop_state =
  ls_recordIndex :: nat
  ls_successCount :: nat
  ls_errorCount :: nat
  ls_batch :: "batch_item list"
  ls_headers :: "string list"

definition initial_state :: loop_state where
  "initial_state = \<lparr> ls_recordIndex = 0, ls_successCount = 0, ls_errorCount = 0,
     ls_batch = [], ls_headers = [] \<rparr>"

text \<open>
  The body of the \<open>try\<close> block that the three readers share, and its \<open>catch\<close>. A parsed
  and validated record joins the batch, and a full batch is processed; a record that
  failed to parse or to validate, and a failure of \<open>processBatch\<close>, are recorded under the
  index of the current record and counted. \<open>processed\<close> is the number reported to the
  metrics tracker after a batch.
\<close>

definition caught ::
  "int \<Rightarrow> nat \<Rightarrow> record_data \<Rightarrow> js_error \<Rightarrow> loop_state \<Rightarrow> world \<Rightarrow> loop_state result" where
  "caught jobId currentIndex raw e st w =
     (case recordError jobId currentIndex raw e w of
        (Inl e', w') \<Rightarrow> (Inl e', w')
      | (Inr _, w') \<Rightarrow> (Inr (st \<lparr> ls_errorCount := ls_errorCount st + 1 \<rparr>), w'))"

definition ingest ::
  "int \<Rightarrow> resource \<Rightarrow> nat \<Rightarrow> nat \<Rightarrow> record_data \<Rightarrow> js_error + import_record \<Rightarrow>
   loop_state \<Rightarrow> world \<Rightarrow> loop_state result" where
  "ingest jobId res currentIndex processed raw parsed st w =
     (case parsed of
        Inl e \<Rightarrow> caught jobId currentIndex raw e st w
      | Inr validated \<Rightarrow>
          (let batch = ls_batch st @ [(currentIndex, validated)]
           in if BATCH_SIZE \<le> length batch
              then (case processBatch jobId res batch w of
                      (Inl e, w1) \<Rightarrow> caught jobId currentIndex raw e (st \<lparr> ls_batch := batch \<rparr>) w1
                    | (Inr r, w1) \<Rightarrow>
                        (let st' = st \<lparr> ls_successCount := ls_successCount st + success r,
                                        ls_errorCount := ls_errorCount st + error r,
                                        ls_batch := [] \<rparr>
                         in (Inr st',
                             updateProgress jobId (int processed) (int (ls_errorCount st')) w1)))
              else (Inr (st \<lparr> ls_batch := batch \<rparr>), w)))"

text \<open>The batch that remains when the source ends.\<close>

definition flushRemaining :: "int \<Rightarrow> resource \<Rightarrow> loop_state \<Rightarrow> world \<Rightarrow> loop_state result" where
  "flushRemaining jobId res st w =
     (if ls_batch st \<noteq> []
      then (case processBatch jobId res (ls_batch st) w of
              (Inl e, w1) \<Rightarrow> (Inl e, w1)
            | (Inr r, w1) \<Rightarrow>
                (Inr (st \<lparr> ls_successCount := ls_successCount st + success r,
                           ls_errorCount := ls_errorCount st + error r \<rparr>), w1))
      else (Inr st, w))"

definition validated :: "env \<Rightarrow> resource \<Rightarrow> jsval \<Rightarrow> js_error + import_record" where
  "validated E res v = map_sum ZodError id (validateRecord (emailOk E) res v)"

definition readFile :: "string \<Rightarrow> world \<Rightarrow> string result" where
  "readFile filePath w = (case files w filePath of
      None \<Rightarrow> (Inl (JsError ''Error'' ''ENOENT: no such file or directory''), w)
    | Some content \<Rightarrow> (Inr content, w))"

subsection \<open>processNdjsonFile\<close>

definition parseLine :: "env \<Rightarrow> resource \<Rightarrow> string \<Rightarrow> js_error + import_record" where
  "parseLine E res line = (case jsonParse E line of
      Inl msg \<Rightarrow> Inl (JsError ''SyntaxError'' msg)
    | Inr v \<Rightarrow> validated E res v)"

fun ndjsonLoop ::
  "env \<Rightarrow> int \<Rightarrow> resource \<Rightarrow> string list \<Rightarrow> loop_state \<Rightarrow> world \<Rightarrow> loop_state result" where
  "ndjsonLoop E jobId res [] st w = (Inr st, w)"
| "ndjsonLoop E jobId res (line # rest) st w =
     (if trim line = [] then ndjsonLoop E jobId res rest st w
      else
        (let currentIndex = ls_recordIndex st;
             st1 = st \<lparr> ls_recordIndex := currentIndex + 1 \<rparr>
         in (case ingest jobId res currentIndex (currentIndex + 1) (RawLine line)
                    (parseLine E res line) st1 w of
               (Inl e, w1) \<Rightarrow> (Inl e, w1)
             | (Inr st2, w1) \<Rightarrow> ndjsonLoop E jobId res rest st2 w1)))"

definition processNdjsonFile :: "env \<Rightarrow> int \<Rightarrow> resource \<Rightarrow> string \<Rightarrow> world \<Rightarrow> unit result" where
  "processNdjsonFile E jobId res filePath w =
     (case readFile filePath w of
        (Inl e, w0) \<Rightarrow> (Inl e, w0)
      | (Inr content, w0) \<Rightarrow>
     (case ndjsonLoop E jobId res (readLines content) initial_state w0 of
        (Inl e, w1) \<Rightarrow> (Inl e, w1)
      | (Inr st, w1) \<Rightarrow>
     (case flushRemaining jobId res st w1 of
        (Inl e, w2) \<Rightarrow> (Inl e, w2)
      | (Inr st', w2) \<Rightarrow>
     (case updateJobCounts jobId
             \<lparr> totalRecords = Some (int (ls_recordIndex st')),
               successCount = Some (SetTo (int (ls_successCount st'))),
               errorCount = Some (SetTo (int (ls_errorCount st'))) \<rparr>
             (updateProgress jobId (int (ls_recordIndex st')) (int (ls_errorCount st')) w2) of
        (Inl e, w3) \<Rightarrow> (Inl e, w3)
      | (Inr _, w3) \<Rightarrow> (Inr (), w3)))))"

subsection \<open>processCsvFile\<close>

text \<open>
  A cell becomes absent, a boolean, a number or a string; the record is built header by
  header from the cells at the same positions.
\<close>

definition csvCell :: "env \<Rightarrow> string option \<Rightarrow> jsval" where
  "csvCell E cell = (case cell of
      None \<Rightarrow> JUndefined
    | Some v \<Rightarrow>
        (if v = [] then JUndefined
         else if v = ''true'' then JBool True
         else if v = ''false'' then JBool False
         else (case toNumber E v of Some n \<Rightarrow> JNum n | None \<Rightarrow> JStr v)))"

definition nth_opt :: "'a list \<Rightarrow> nat \<Rightarrow> 'a option" where
  "nth_opt xs i = (if i < length xs then Some (xs ! i) else None)"

definition csvRecord :: "env \<Rightarrow> string list \<Rightarrow> string \<Rightarrow> jsval" where
  "csvRecord E headers line =
     (let vals = map trim (split (CHR '','') line)
      in JObj (fold (\<lambda>(header, i) obj. setField header (csvCell E (nth_opt vals i)) obj)
                 (zip headers [0 ..< length headers]) []))"

fun csvLoop ::
  "env \<Rightarrow> int \<Rightarrow> resource \<Rightarrow> string list \<Rightarrow> loop_state \<Rightarrow> world \<Rightarrow> loop_state result" where
  "csvLoop E jobId res [] st w = (Inr st, w)"
| "csvLoop E jobId res (line # rest) st w =
     (if trim line = [] then csvLoop E jobId res rest st w
      else if ls_recordIndex st = 0
      then csvLoop E jobId res rest
             (st \<lparr> ls_headers := map trim (split (CHR '','') line), ls_recordIndex := 1 \<rparr>) w
      else
        (let currentIndex = ls_recordIndex st;
             st1 = st \<lparr> ls_recordIndex := currentIndex + 1 \<rparr>
         in (case ingest jobId res currentIndex (currentIndex + 1) (RawLine line)
                    (validated E res (csvRecord E (ls_headers st) line)) st1 w of
               (Inl e, w1) \<Rightarrow> (Inl e, w1)
             | (Inr st2, w1) \<Rightarrow> csvLoop E jobId res rest st2 w1)))"

definition processCsvFile :: "env \<Rightarrow> int \<Rightarrow> resource \<Rightarrow> string \<Rightarrow> world \<Rightarrow> unit result" where
  "processCsvFile E jobId res filePath w =
     (case readFile filePath w of
        (Inl e, w0) \<Rightarrow> (Inl e, w0)
      | (Inr content, w0) \<Rightarrow>
     (case csvLoop E jobId res (readLines content) initial_state w0 of
        (Inl e, w1) \<Rightarrow> (Inl e, w1)
      | (Inr st, w1) \<Rightarrow>
     (case flushRemaining jobId res st w1 of
        (Inl e, w2) \<Rightarrow> (Inl e, w2)
      | (Inr st', w2) \<Rightarrow>
          (let total = int (ls_recordIndex st') - 1
           in (case updateJobCounts jobId
                       \<lparr> totalRecords = Some total,
                         successCount = Some (SetTo (int (ls_successCount st'))),
                         errorCount = Some (SetTo (int (ls_errorCount st'))) \<rparr>
                       (updateProgress jobId total (int (ls_errorCount st')) w2) of
                 (Inl e, w3) \<Rightarrow> (Inl e, w3)
               | (Inr _, w3) \<Rightarrow> (Inr (), w3))))))"

subsection \<open>processJsonFile\<close>

fun jsonLoop ::
  "env \<Rightarrow> int \<Rightarrow> resource \<Rightarrow> jsval list \<Rightarrow> loop_state \<Rightarrow> world \<Rightarrow> loop_state result" where
  "jsonLoop E jobId res [] st w = (Inr st, w)"
| "jsonLoop E jobId res (r # rest) st w =
     (let i = ls_recordIndex st;
          st1 = st \<lparr> ls_recordIndex := i + 1 \<rparr>
      in (case ingest jobId res i (i + 1) (RawJson r) (validated E res r) st1 w of
            (Inl e, w1) \<Rightarrow> (Inl e, w1)
          | (Inr st2, w1) \<Rightarrow> jsonLoop E jobId res rest st2 w1))"

definition processJsonFile :: "env \<Rightarrow> int \<Rightarrow> resource \<Rightarrow> string \<Rightarrow> world \<Rightarrow> unit result" where
  "processJsonFile E jobId res filePath w =
     (case readFile filePath w of
        (Inl e, w0) \<Rightarrow> (Inl e, w0)
      | (Inr content, w0) \<Rightarrow>
     (case jsonParse E content of
        Inl msg \<Rightarrow> (Inl (JsError ''SyntaxError'' msg), w0)
      | Inr (JArr records) \<Rightarrow>
     (case updateJobCounts jobId
             \<lparr> totalRecords = Some (int (length records)), successCount = None,
               errorCount = None \<rparr> w0 of
        (Inl e, w1) \<Rightarrow> (Inl e, w1)
      | (Inr _, w1) \<Rightarrow>
     (case jsonLoop E jobId res records initial_state w1 of
        (Inl e, w2) \<Rightarrow> (Inl e, w2)
      | (Inr st, w2) \<Rightarrow>
     (case flushRemaining jobId res st w2 of
        (Inl e, w3) \<Rightarrow> (Inl e, w3)
      | (Inr st', w3) \<Rightarrow>
     (case updateJobCounts jobId
             \<lparr> totalRecords = None,
               successCount = Some (SetTo (int (ls_successCount st'))),
               errorCount = Some (SetTo (int (ls_errorCount st'))) \<rparr>
             (updateProgress jobId (int (length records)) (int (ls_errorCount st')) w3) of
        (Inl e, w4) \<Rightarrow> (Inl e, w4)
      | (Inr _, w4) \<Rightarrow> (Inr (), w4)))))
      | Inr _ \<Rightarrow> throwError ''JSON must be an array'' w0))"

subsection \<open>downloadFile and processImportJob\<close>

fun contains :: "string \<Rightarrow> string \<Rightarrow> bool" where
  "contains [] p = (p = [])"
| "contains (c # cs) p = (startsWith (c # cs) p \<or> contains cs p)"

text \<open>
  The staging file is created when the download starts. A response other than 200
  rejects and leaves it empty; a network error removes it.
\<close>

definition downloadFile :: "env \<Rightarrow> string \<Rightarrow> world \<Rightarrow> string result" where
  "downloadFile E url w =
     (let ext = (if contains url ''.ndjson'' then ''ndjson''
                 else if contains url ''.csv'' then ''csv'' else ''json'');
          filePath = ''uploads/download-'' @ digits (clock w) @ ''.'' @ ext
      in (case httpGet E url of
            NetworkError msg \<Rightarrow>
              (Inl (JsError ''Error'' msg), w \<lparr> files := (files w)(filePath := None) \<rparr>)
          | Response status body \<Rightarrow>
              (if status \<noteq> 200
               then (Inl (JsError ''Error'' (''Failed to download: HTTP '' @ digits status)),
                     w \<lparr> files := (files w)(filePath \<mapsto> []) \<rparr>)
               else (Inr filePath, w \<lparr> files := (files w)(filePath \<mapsto> body) \<rparr>))))"

text \<open>
  The \<open>try\<close> block of \<open>processImportJob\<close>. Beside its outcome it returns the path of
  the staging file once a download has succeeded, for the clean-up.
\<close>

definition processSource ::
  "env \<Rightarrow> int \<Rightarrow> resource \<Rightarrow> string \<Rightarrow> world \<Rightarrow> unit result" where
  "processSource E jobId res actualFilePath w =
     (if files w actualFilePath = None then throwError ''File not found'' w
      else
        (case (if endsWith actualFilePath ''.ndjson''
               then processNdjsonFile E jobId res actualFilePath w
               else if endsWith actualFilePath ''.csv''
               then processCsvFile E jobId res actualFilePath w
               else processJsonFile E jobId res actualFilePath w) of
           (Inl e, w1) \<Rightarrow> (Inl e, w1)
         | (Inr _, w1) \<Rightarrow>
             (case updateJobStatus jobId Completed None (Some (clock w1)) w1 of
                (Inl e, w2) \<Rightarrow> (Inl e, w2)
              | (Inr _, w2) \<Rightarrow> (Inr (), w2))))"

definition importBody ::
  "env \<Rightarrow> int \<Rightarrow> import_job \<Rightarrow> world \<Rightarrow> (js_error + unit) \<times> string option \<times> world" where
  "importBody E jobId job w =
     (case truthyStr (ij_filePath job) of
        None \<Rightarrow> (Inl (JsError ''Error'' ''No file path''), None, w)
      | Some filePath \<Rightarrow>
          (if startsWith filePath ''http://'' \<or> startsWith filePath ''https://''
           then (case downloadFile E filePath w of
                   (Inl e, w1) \<Rightarrow> (Inl e, None, w1)
                 | (Inr actualFilePath, w1) \<Rightarrow>
                     (case processSource E jobId (ij_resource job) actualFilePath w1 of
                        (r, w2) \<Rightarrow> (r, Some actualFilePath, w2)))
           else (case processSource E jobId (ij_resource job) filePath w of
                   (r, w1) \<Rightarrow> (r, None, w1))))"

definition beginImportJob :: "int \<Rightarrow> world \<Rightarrow> import_job result" where
  "beginImportJob jobId w =
     updateJobStatus jobId Processing (Some (clock w)) None (startTracking jobId w)"

definition runImportJob :: "env \<Rightarrow> int \<Rightarrow> import_job \<Rightarrow> world \<Rightarrow> unit result" where
  "runImportJob E jobId job w =
     (case importBody E jobId job w of
        (r, downloaded, w1) \<Rightarrow>
          (let (r', w2) =
                 (case r of
                    Inr _ \<Rightarrow> (Inr (), w1)
                  | Inl e \<Rightarrow>
                      (case updateJobStatus jobId Failed None (Some (clock w1)) w1 of
                         (Inl e', w') \<Rightarrow> (Inl e', w')
                       | (Inr _, w') \<Rightarrow> (Inl e, w')));
               w3 = finishTracking jobId w2;
               w4 = (case downloaded of
                       None \<Rightarrow> w3
                     | Some path \<Rightarrow> w3 \<lparr> files := (files w3)(path := None) \<rparr>)
           in (r', w4)))"

definition processImportJob :: "env \<Rightarrow> int \<Rightarrow> world \<Rightarrow> unit result" where
  "processImportJob E jobId w = (case beginImportJob jobId w of
      (Inl e, w1) \<Rightarrow> (Inl e, w1)
    | (Inr job, w1) \<Rightarrow> runImportJob E jobId job w1)"


section \<open>The worker (importWorker.ts)\<close>

definition MAX_CONCURRENT_JOBS :: nat where
  "MAX_CONCURRENT_JOBS = 3"

text \<open>
  The state of the worker process beside the store: the set of active job identifiers
  (a set that keeps insertion order, so a list without repetition), the jobs whose
  processing has started and has not settled yet, each with the job row its first
  statement returned, the run flag and the poll counter.
\<close>

datatype task = ImportTask int import_job | ExportTask int export_job

record worker =
  store :: world
  activeJobs :: "int list"
  tasks :: "task list"
  isRunning :: bool
  pollCount :: nat

definition set_add :: "int \<Rightarrow> int list \<Rightarrow> int list" where
  "set_add j xs = (if j \<in> set xs then xs else xs @ [j])"

definition set_delete :: "int \<Rightarrow> int list \<Rightarrow> int list" where
  "set_delete j xs = removeAll j xs"

text \<open>
  \<open>processImportJobAsync\<close> adds the identifier to the active set and starts the job;
  the first statement of the job, which marks it as processing, takes effect when it is
  issued. A job whose first statement fails settles at once. The rest of the job runs
  later, as one step (\<open>settle\<close>), and ends with the removal from the active set whatever
  the outcome.
\<close>

definition processImportJobAsync :: "int \<Rightarrow> worker \<Rightarrow> worker" where
  "processImportJobAsync jobId ws =
     (let active = set_add jobId (activeJobs ws)
      in (case beginImportJob jobId (store ws) of
            (Inl e, w1) \<Rightarrow> ws \<lparr> store := w1, activeJobs := set_delete jobId active \<rparr>
          | (Inr job, w1) \<Rightarrow>
              ws \<lparr> store := w1, activeJobs := active,
                   tasks := tasks ws @ [ImportTask jobId job] \<rparr>))"

definition processExportJobAsync :: "int \<Rightarrow> worker \<Rightarrow> worker" where
  "processExportJobAsync jobId ws =
     (let active = set_add jobId (activeJobs ws)
      in (case beginExportJob jobId (store ws) of
            (Inl e, w1) \<Rightarrow> ws \<lparr> store := w1, activeJobs := set_delete jobId active \<rparr>
          | (Inr job, w1) \<Rightarrow>
              ws \<lparr> store := w1, activeJobs := active,
                   tasks := tasks ws @ [ExportTask jobId job] \<rparr>))"

definition settle :: "env \<Rightarrow> task \<Rightarrow> worker \<Rightarrow> worker" where
  "settle E t ws = (case t of
      ImportTask jobId job \<Rightarrow>
        ws \<lparr> store := snd (runImportJob E jobId job (store ws)),
             activeJobs := set_delete jobId (activeJobs ws),
             tasks := remove1 t (tasks ws) \<rparr>
    | ExportTask jobId job \<Rightarrow>
        ws \<lparr> store := snd (runExportJob E jobId job (store ws)),
             activeJobs := set_delete jobId (activeJobs ws),
             tasks := remove1 t (tasks ws) \<rparr>)"

text \<open>
  The two queries of a poll: pending jobs whose identifier is not active, oldest first,
  at most \<open>n\<close> of them.
\<close>

definition pendingImports :: "nat \<Rightarrow> worker \<Rightarrow> import_job list" where
  "pendingImports n ws =
     take n (sort_key ij_createdAt
       (filter (\<lambda>j. ij_status j = Pending \<and> ij_id j \<notin> set (activeJobs ws))
          (importJobs (store ws))))"

definition pendingExports :: "nat \<Rightarrow> worker \<Rightarrow> export_job list" where
  "pendingExports n ws =
     take n (sort_key ej_createdAt
       (filter (\<lambda>j. ej_status j = Pending \<and> ej_id j \<notin> set (activeJobs ws))
          (exportJobs (store ws))))"

definition pollAndProcessJobs :: "worker \<Rightarrow> worker" where
  "pollAndProcessJobs ws =
     (if MAX_CONCURRENT_JOBS \<le> length (activeJobs ws) then ws
      else
        (let availableSlots = MAX_CONCURRENT_JOBS - length (activeJobs ws);
             imports = pendingImports availableSlots ws;
             exports = pendingExports (availableSlots - length imports) ws
         in fold processExportJobAsync (map ej_id exports)
              (fold processImportJobAsync (map ij_id imports) ws)))"

text \<open>
  Job creation by the request handlers (\<open>createImportJob\<close>, \<open>createExportJob\<close>): a new
  row, pending, under an identifier no row has.
\<close>

definition createImportJob :: "import_job \<Rightarrow> world \<Rightarrow> world" where
  "createImportJob j w = w \<lparr> importJobs := importJobs w @ [j \<lparr> ij_status := Pending \<rparr>] \<rparr>"

definition createExportJob :: "export_job \<Rightarrow> world \<Rightarrow> world" where
  "createExportJob j w = w \<lparr> exportJobs := exportJobs w @ [j \<lparr> ej_status := Pending \<rparr>] \<rparr>"

text \<open>
  The steps of the system: an iteration of the worker loop while the run flag is set,
  the settling of a started job, the stop signal, and the creation of a job.
\<close>

inductive step :: "env \<Rightarrow> worker \<Rightarrow> worker \<Rightarrow> bool" for E :: env where
  poll: "isRunning ws \<Longrightarrow>
         step E ws (pollAndProcessJobs (ws \<lparr> pollCount := pollCount ws + 1 \<rparr>))"
| settled: "t \<in> set (tasks ws) \<Longrightarrow> step E ws (settle E t ws)"
| stopWorker: "step E ws (ws \<lparr> isRunning := False \<rparr>)"
| importCreated: "ij_id j \<notin> ij_id ` set (importJobs (store ws)) \<Longrightarrow>
         step E ws (ws \<lparr> store := createImportJob j (store ws) \<rparr>)"
| exportCreated: "ej_id j \<notin> ej_id ` set (exportJobs (store ws)) \<Longrightarrow>
         step E ws (ws \<lparr> store := createExportJob j (store ws) \<rparr>)"

text \<open>
  The worker starts with no active job over a store whose job identifiers are unique
  (they are primary keys).
\<close>

definition unique_ids :: "world \<Rightarrow> bool" where
  "unique_ids w = (distinct (map ij_id (importJobs w)) \<and> distinct (map ej_id (exportJobs w)))"

definition startWorker :: "world \<Rightarrow> worker" where
  "startWorker w = \<lparr> store = w, activeJobs = [], tasks = [], isRunning = True, pollCount = 0 \<rparr>"

inductive reachable :: "env \<Rightarrow> worker \<Rightarrow> bool" for E :: env where
  start: "unique_ids w \<Longrightarrow> reachable E (startWorker w)"
| after: "reachable E ws \<Longrightarrow> step E ws ws' \<Longrightarrow> reachable E ws'"

definition importStatus :: "world \<Rightarrow> int \<Rightarrow> job_status option" where
  "importStatus w jobId = map_option ij_status (find (\<lambda>j. ij_id j = jobId) (importJobs w))"

definition exportStatus :: "world \<Rightarrow> int \<Rightarrow> job_status option" where
  "exportStatus w jobId = map_option ej_status (find (\<lambda>j. ej_id j = jobId) (exportJobs w))"


section \<open>Inputs of the examples\<close>

text \<open>The article of the schema tests, under a given slug.\<close>

definition sampleArticle :: "string \<Rightarrow> jsval" where
  "sampleArticle slug = JObj [(''slug'', JStr slug), (''title'', JStr ''Title''),
     (''body'', JStr ''Body''), (''author_id'', JNum 1)]"

definition sampleEnv :: env where
  "sampleEnv = \<lparr> emailOk = (\<lambda>s. CHR ''@'' \<in> set s),
     jsonParse = (\<lambda>s.
       if s = ''{\"id\":1,\"email\":\"not-an-email\",\"name\":\"Bob\"}''
       then Inr (JObj [(''id'', JNum 1), (''email'', JStr ''not-an-email''),
                       (''name'', JStr ''Bob'')])
       else if s = ''[]'' then Inr (JArr [])
       else if s = ''{}'' then Inr (JObj [])
       else Inl ''Unexpected token''),
     jsonStringify = (\<lambda>v. ''{}''),
     toNumber = (\<lambda>s. if s \<noteq> [] \<and> list_all is_digit s then parseInt s else None),
     toISOString = digits,
     httpGet = (\<lambda>url. NetworkError ''ECONNREFUSED'') \<rparr>"

definition emptyWorld :: world where
  "emptyWorld = \<lparr> users = [], articles = [], comments = [], importJobs = [],
     exportJobs = [], importErrors = [], nextUserId = 1, nextArticleId = 1,
     nextCommentId = 1, files = Map.empty, metrics = Map.empty, clock = 0 \<rparr>"

definition sampleArticleRow :: article_row where
  "sampleArticleRow = \<lparr> a_id = 7, a_slug = ''my-slug-2'', a_title = ''Title'',
     a_description = ''About'', a_body = ''Body'', a_externalId = Some ''8fce7dc5-09d1'',
     a_authorId = 1,
     a_tagList = [], a_status = None, a_publishedAt = None, a_createdAt = 0 \<rparr>"

definition sampleUserRow :: user_row where
  "sampleUserRow = \<lparr> u_id = 1, u_email = ''author@example.com'', u_username = ''author'',
     u_password = ''secret'', u_role = ''reader'', u_active = True,
     u_externalId = Some ''225e7529-b0be'', u_createdAt = 0, u_updatedAt = 0 \<rparr>"

definition sampleJob :: import_job where
  "sampleJob = \<lparr> ij_id = 1, ij_resource = Comments, ij_status = Pending,
     ij_totalRecords = 0, ij_successCount = 0, ij_errorCount = 0,
     ij_filePath = Some ''uploads/comments.ndjson'', ij_startedAt = None,
     ij_completedAt = None, ij_createdAt = 0 \<rparr>"

definition sampleWorld :: world where
  "sampleWorld = emptyWorld \<lparr> users := [sampleUserRow], articles := [sampleArticleRow],
     importJobs := [sampleJob], nextUserId := 2, nextArticleId := 8 \<rparr>"

definition sampleUserRecord :: import_record where
  "sampleUserRecord = empty_record \<lparr> r_id := Some (IdStr ''5864905b-ec8c''),
     r_email := Some ''newuser@example.com'', r_name := Some ''New User'',
     r_role := Some ''admin'', r_active := Some True \<rparr>"

definition sampleImportedUser :: user_row where
  "sampleImportedUser = \<lparr> u_id = 2, u_email = ''newuser@example.com'',
     u_username = ''newuser'', u_password = ''imported-user-change-me'', u_role = ''admin'',
     u_active = True, u_externalId = Some ''5864905b-ec8c'', u_createdAt = 0,
     u_updatedAt = 0 \<rparr>"

definition sampleArticleRecord :: import_record where
  "sampleArticleRecord = empty_record \<lparr> r_slug := Some ''test-article'',
     r_title := Some ''Test Article'', r_body := Some ''Body'',
     r_author_id := Some (IdStr ''225e7529-b0be'') \<rparr>"

definition sampleComment :: import_record where
  "sampleComment = empty_record \<lparr> r_article_id := Some (IdStr ''8fce7dc5-09d1''),
     r_user_id := Some (IdNum 1), r_body := Some ''Comment body'' \<rparr>"

definition unresolvedComment :: import_record where
  "unresolvedComment = empty_record \<lparr> r_article_id := Some (IdStr ''invalid-uuid''),
     r_user_id := Some (IdNum 1), r_body := Some ''Comment'' \<rparr>"


text \<open>
  A store with one pending import job of users over the file \<open>path\<close>, whose content
  is \<open>content\<close>.
\<close>

definition usersJob :: "string \<Rightarrow> import_job" where
  "usersJob path = \<lparr> ij_id = 1, ij_resource = Users, ij_status = Pending,
     ij_totalRecords = 0, ij_successCount = 0, ij_errorCount = 0,
     ij_filePath = Some path, ij_startedAt = None, ij_completedAt = None,
     ij_createdAt = 0 \<rparr>"

definition importWorld :: "string \<Rightarrow> string \<Rightarrow> world" where
  "importWorld path content =
     emptyWorld \<lparr> importJobs := [usersJob path], files := [path \<mapsto> content] \<rparr>"


definition csvContent :: string where
  "csvContent = ''id,email,name'' @ [CHR 0x0A] @ ''1,not-an-email,Bob'' @ [CHR 0x0A]"

definition ndjsonContent :: string where
  "ndjsonContent = ''{\"id\":1,\"email\":\"not-an-email\",\"name\":\"Bob\"}'' @ [CHR 0x0A]"

section \<open>Notions of the specification\<close>

text \<open>
  Kebab case in the words of the specification: groups of letters and digits, none
  empty, separated by single hyphens. \<open>lowercaseKebab\<close> asks for lowercase letters,
  \<open>kebabCase\<close> takes letters of either case.
\<close>

definition lowercaseKebab :: "string \<Rightarrow> bool" where
  "lowercaseKebab s =
     list_all (\<lambda>g. g \<noteq> [] \<and> list_all (\<lambda>c. is_lower c \<or> is_digit c) g) (split (CHR ''-'') s)"

definition kebabCase :: "string \<Rightarrow> bool" where
  "kebabCase s = list_all (\<lambda>g. g \<noteq> [] \<and> list_all slugClass g) (split (CHR ''-'') s)"

text \<open>The author reference of an article record, resolved against the users.\<close>

definition authorOf :: "import_record \<Rightarrow> world \<Rightarrow> js_error + int" where
  "authorOf r w = resolveRef ''author_id'' ''user''
     (\<lambda>s. map_option u_id (user_findUnique_externalId s w))
     (if idref_truthy (r_author_id r) then r_author_id r else r_authorId r)"

text \<open>What an upsert leaves untouched: the job tables, the error rows, the files, the
  metrics and the clock.\<close>

definition same_jobs :: "world \<Rightarrow> world \<Rightarrow> bool" where
  "same_jobs w w' \<longleftrightarrow> importJobs w' = importJobs w \<and> exportJobs w' = exportJobs w
     \<and> importErrors w' = importErrors w \<and> files w' = files w \<and> metrics w' = metrics w
     \<and> clock w' = clock w"


text \<open>
  What the reading of a source leaves as it is in the job tables: the identifier and the
  status of every import job, in their order, and the export jobs.
\<close>

definition same_statuses :: "world \<Rightarrow> world \<Rightarrow> bool" where
  "same_statuses w w' \<longleftrightarrow>
     map (\<lambda>j. (ij_id j, ij_status j)) (importJobs w')
       = map (\<lambda>j. (ij_id j, ij_status j)) (importJobs w)
     \<and> exportJobs w' = exportJobs w"


text \<open>
  A change of the job tables that is confined to one import job, or to one export job:
  the identifiers of the rows stay, in their order, every other job of the table keeps
  its status, and the other table stays as it is. \<open>completes\<close> is such a change that
  ends with the import job completed.
\<close>

definition only_import :: "int \<Rightarrow> world \<Rightarrow> world \<Rightarrow> bool" where
  "only_import jobId w w' \<longleftrightarrow>
     map ij_id (importJobs w') = map ij_id (importJobs w)
     \<and> (\<forall>k. k \<noteq> jobId \<longrightarrow> importStatus w' k = importStatus w k)
     \<and> exportJobs w' = exportJobs w"

definition only_export :: "int \<Rightarrow> world \<Rightarrow> world \<Rightarrow> bool" where
  "only_export jobId w w' \<longleftrightarrow>
     map ej_id (exportJobs w') = map ej_id (exportJobs w)
     \<and> (\<forall>k. k \<noteq> jobId \<longrightarrow> exportStatus w' k = exportStatus w k)
     \<and> importJobs w' = importJobs w"

definition completes :: "int \<Rightarrow> world \<Rightarrow> world \<Rightarrow> bool" where
  "completes jobId w w' \<longleftrightarrow> importStatus w' jobId = Some Completed \<and> only_import jobId w w'"



section \<open>Properties\<close>

subsection \<open>Slug validation\<close>

lemma hyphen_not_slugClass: "\<not> slugClass (CHR ''-'')"
  by (simp add: slugClass_def is_lower_def is_upper_def is_digit_def less_eq_char_def)

lemma space_not_slugClass: "\<not> slugClass (CHR '' '')"
  by (simp add: slugClass_def is_lower_def is_upper_def is_digit_def less_eq_char_def)

lemma split_not_Nil: "split sep s \<noteq> []"
  by (induction s) (auto split: list.splits)

lemma slugTail_split:
  "slugTail b s = (case split (CHR ''-'') s of
       [] \<Rightarrow> False
     | g # gs \<Rightarrow> (b \<or> g \<noteq> []) \<and> list_all slugClass g \<and>
                 list_all (\<lambda>g. g \<noteq> [] \<and> list_all slugClass g) gs)"
proof (induction s arbitrary: b)
  case Nil
  show ?case by simp
next
  case (Cons c cs)
  show ?case
    using split_not_Nil [of "CHR ''-''" cs] hyphen_not_slugClass
    by (auto simp: Cons split: list.splits)
qed

lemma slugRegex_kebabCase: "slugRegex s = kebabCase s"
  unfolding slugRegex_def kebabCase_def
  using split_not_Nil [of "CHR ''-''" s]
  by (auto simp: slugTail_split split: list.splits)

lemma slugTail_chars: "slugTail b s \<Longrightarrow> c \<in> set s \<Longrightarrow> slugClass c \<or> c = CHR ''-''"
  by (induction s arbitrary: b) (auto split: if_splits)

lemma slugRegex_no_space: "CHR '' '' \<in> set s \<Longrightarrow> \<not> slugRegex s"
  using slugTail_chars [of False s "CHR '' ''"] space_not_slugClass
  by (auto simp: slugRegex_def)

lemma zap_Inr_iff: "zap f x = Inr y \<longleftrightarrow> (\<exists>g a. f = Inr g \<and> x = Inr a \<and> y = g a)"
  by (cases f; cases x) auto

lemma at_path_Inr_iff: "at_path k r = Inr y \<longleftrightarrow> r = Inr y"
  by (cases r) (auto simp: at_path_def)

lemma accepted_Inr_iff: "accepted r \<longleftrightarrow> (\<exists>y. r = Inr y)"
  by (cases r) (auto simp: accepted_def)

lemma z_slug_Inr_iff: "z_slug (JStr s) = Inr y \<longleftrightarrow> slugRegex s \<and> y = s"
  by (auto simp: z_slug_def invalid_def)

lemma articleObjectSchema_slug:
  "articleObjectSchema (JObj ((''slug'', JStr s) # kvs)) = Inr d \<longleftrightarrow>
     slugRegex s \<and> (\<exists>d'. articleObjectSchema (JObj ((''slug'', JStr ''a'') # kvs)) = Inr d'
        \<and> d = d' \<lparr> r_slug := Some s \<rparr>)"
  unfolding articleObjectSchema_def
  apply (simp add: zap_Inr_iff field_def getProp_def at_path_Inr_iff z_slug_Inr_iff is_object_def)
  apply (simp add: slugRegex_def slugClass_def is_lower_def less_eq_char_def)
  by (auto simp: empty_record_def)

lemma articleRecordSchema_accepted_iff:
  "accepted (articleRecordSchema raw) \<longleftrightarrow>
     (\<exists>d. articleObjectSchema raw = Inr d \<and> r_author_id d \<noteq> None
        \<and> \<not> (r_status d = Some ''draft'' \<and> r_published_at d \<noteq> Some None
              \<and> r_published_at d \<noteq> None))"
proof (cases "articleObjectSchema raw")
  case (Inl e)
  then show ?thesis
    by (simp add: accepted_def articleRecordSchema_def)
next
  case (Inr d)
  then show ?thesis
    by (simp add: accepted_def articleRecordSchema_def refine_def)
qed

lemma articleRecordSchema_slug:
  "accepted (articleRecordSchema (JObj ((''slug'', JStr s) # kvs))) \<longleftrightarrow>
     slugRegex s \<and> accepted (articleRecordSchema (JObj ((''slug'', JStr ''a'') # kvs)))"
  unfolding articleRecordSchema_accepted_iff articleObjectSchema_slug [of s]
  by auto

text \<open>
  C4 (as stated, refuted). The claim has validation fail for every slug with an uppercase
  letter. The pattern carries the flag \<open>i\<close>: the article whose slug is \<open>My-Slug\<close>, which
  has the uppercase letter \<open>M\<close> and is not lowercase kebab case, is accepted.
\<close>

theorem uppercase_slug_accepted:
  "is_upper (CHR ''M'') \<and> CHR ''M'' \<in> set ''My-Slug'' \<and> \<not> lowercaseKebab ''My-Slug''
   \<and> accepted (articleRecordSchema (sampleArticle ''My-Slug''))"
  by code_simp

text \<open>
  C4 (amended). Article validation accepts a slug exactly when it is kebab case with
  letters of either case: groups of ASCII letters and digits separated by single
  hyphens. Given the other keys of an article, validation succeeds under a slug \<open>s\<close>
  exactly when \<open>s\<close> is of that form and the other keys pass (they pass under the slug
  \<open>a\<close>). Every slug that contains a space fails; \<open>My Slug\<close> fails and \<open>my-slug-2\<close> is
  accepted.
\<close>

theorem article_slug_accepted_iff_kebabCase:
  "(accepted (articleRecordSchema (JObj ((''slug'', JStr s) # kvs))) \<longleftrightarrow>
      kebabCase s \<and> accepted (articleRecordSchema (JObj ((''slug'', JStr ''a'') # kvs))))
   \<and> (CHR '' '' \<in> set s \<longrightarrow>
        \<not> accepted (articleRecordSchema (JObj ((''slug'', JStr s) # kvs))))
   \<and> \<not> accepted (articleRecordSchema (sampleArticle ''My Slug''))
   \<and> accepted (articleRecordSchema (sampleArticle ''my-slug-2''))"
proof -
  have "\<not> accepted (articleRecordSchema (sampleArticle ''My Slug''))"
    by code_simp
  moreover have "accepted (articleRecordSchema (sampleArticle ''my-slug-2''))"
    by code_simp
  moreover have "accepted (articleRecordSchema (JObj ((''slug'', JStr s) # kvs))) \<longleftrightarrow>
      kebabCase s \<and> accepted (articleRecordSchema (JObj ((''slug'', JStr ''a'') # kvs)))"
    using articleRecordSchema_slug [of s kvs] slugRegex_kebabCase [of s] by blast
  moreover have "CHR '' '' \<in> set s \<longrightarrow>
      \<not> accepted (articleRecordSchema (JObj ((''slug'', JStr s) # kvs)))"
    using articleRecordSchema_slug [of s kvs] slugRegex_no_space [of s] by blast
  ultimately show ?thesis
    by blast
qed

theorem article_slug_accepted_iff_kebabCase_witness:
  "CHR '' '' \<in> set ''my slug''
   \<and> \<not> accepted (articleRecordSchema (JObj ((''slug'', JStr ''my slug'') #
         [(''title'', JStr ''Title''), (''body'', JStr ''Body''), (''author_id'', JNum 1)])))"
proof -
  have a: "CHR '' '' \<in> set ''my slug''"
    by simp
  have "CHR '' '' \<in> set ''my slug'' \<longrightarrow>
      \<not> accepted (articleRecordSchema (JObj ((''slug'', JStr ''my slug'') #
         [(''title'', JStr ''Title''), (''body'', JStr ''Body''), (''author_id'', JNum 1)])))"
    by (rule conjunct1 [OF conjunct2 [OF article_slug_accepted_iff_kebabCase]])
  with a show ?thesis
    by (intro conjI) (assumption, erule (1) mp)
qed


subsection \<open>Field selection of an export\<close>

lemma defineOwn_keys: "fst ` set (defineOwn k v obj) = insert k (fst ` set obj)"
  by (induction obj) force+

lemma defineOwn_distinct: "distinct (map fst obj) \<Longrightarrow> distinct (map fst (defineOwn k v obj))"
proof (induction obj)
  case Nil
  show ?case by simp
next
  case (Cons p obj)
  then show ?case
    using defineOwn_keys [of k v obj] by (cases p) auto
qed

lemma setField_keys:
  "fst ` set (setField k v obj) = (if k = ''__proto__'' then {} else {k}) \<union> fst ` set obj"
  by (simp add: setField_def defineOwn_keys)

lemma setField_distinct: "distinct (map fst obj) \<Longrightarrow> distinct (map fst (setField k v obj))"
  by (simp add: setField_def defineOwn_distinct)

lemma fold_select_keys:
  "fst ` set (fold (\<lambda>f filtered. if getField full f \<noteq> JUndefined
                     then setField f (getField full f) filtered else filtered) fs acc)
   = fst ` set acc \<union> {f \<in> set fs. f \<noteq> ''__proto__'' \<and> getField full f \<noteq> JUndefined}"
proof (induction fs arbitrary: acc)
  case Nil
  show ?case by simp
next
  case (Cons f fs)
  show ?case
    by (simp add: Cons setField_keys) blast
qed

lemma fold_select_distinct:
  "distinct (map fst acc) \<Longrightarrow>
   distinct (map fst (fold (\<lambda>f filtered. if getField full f \<noteq> JUndefined
                     then setField f (getField full f) filtered else filtered) fs acc))"
  by (induction fs arbitrary: acc) (simp_all add: setField_distinct)

lemma selectFields_keys:
  "fst ` set (selectFields full (Some fs))
     = {f \<in> set fs. f \<noteq> ''__proto__'' \<and> getField full f \<noteq> JUndefined}"
  by (simp add: selectFields_def fold_select_keys)

lemma selectFields_distinct: "distinct (map fst (selectFields full (Some fs)))"
  by (simp add: selectFields_def fold_select_distinct)

lemma formatRecord_select:
  "formatRecord E res r (Some fs) = selectFields (formatRecord E res r None) (Some fs)"
  by (cases res)
     (simp_all add: formatRecord_def formatUserRecord_def formatArticleRecord_def
        formatCommentRecord_def selectFields_def)

lemma id_slug_keys:
  "map fst (formatRecord E Articles (article_record w a) (Some [''id'', ''slug'']))
     = [''id'', ''slug'']"
  by (cases "a_externalId a")
     (simp_all add: formatRecord_def formatArticleRecord_def selectFields_def getField_def
        setField_def article_record_def empty_cursor_record_def js_or_def str_val_def
        num_val_def)

lemma inherited_keys:
  "map fst (formatRecord E Articles (article_record w a)
       (Some [''id'', ''constructor'', ''__proto__''])) = [''id'', ''constructor'']"
  by (cases "a_externalId a")
     (simp_all add: formatRecord_def formatArticleRecord_def selectFields_def getField_def
        setField_def objectPrototype_def article_record_def empty_cursor_record_def
        js_or_def str_val_def num_val_def)

text \<open>
  C6 (as stated, refuted). With the field list \<open>id, description\<close> the output of an
  article has the single key \<open>id\<close>: \<open>description\<close> is no key of the export shape, and a
  formatter copies a field of the list only when its value is not \<open>undefined\<close>.
\<close>

theorem field_list_key_dropped:
  "map fst (formatRecord sampleEnv Articles (article_record emptyWorld sampleArticleRow)
       (Some [''id'', ''description''])) = [''id'']"
  by (simp add: formatRecord_def formatArticleRecord_def selectFields_def getField_def
        setField_def objectPrototype_def article_record_def empty_cursor_record_def
        js_or_def str_val_def num_val_def sampleArticleRow_def)

text \<open>
  C6 (amended). For every export with a field list, the keys of a formatted record are
  exactly the fields of the list, other than \<open>__proto__\<close>, whose value read from the
  full export shape of the record is not \<open>undefined\<close>, each once; so no key outside the
  list appears. The value is read as \<open>formatted[field]\<close> reads it: a field of the shape,
  or else a property that every object inherits, such as \<open>constructor\<close>. With the
  fields \<open>id, slug\<close> every article of the store is formatted with exactly these two
  keys; with \<open>id, constructor, __proto__\<close>, with the keys \<open>id, constructor\<close>.
\<close>

theorem export_field_selection:
  "set (map fst (formatRecord E res r (Some fs)))
     = {f \<in> set fs. f \<noteq> ''__proto__''
          \<and> getField (formatRecord E res r None) f \<noteq> JUndefined}
   \<and> distinct (map fst (formatRecord E res r (Some fs)))
   \<and> map fst (formatRecord E Articles (article_record w a) (Some [''id'', ''slug'']))
       = [''id'', ''slug'']
   \<and> map fst (formatRecord E Articles (article_record w a)
         (Some [''id'', ''constructor'', ''__proto__''])) = [''id'', ''constructor'']"
  using id_slug_keys [of E w a] inherited_keys [of E w a]
  by (simp add: formatRecord_select [of E res r fs] selectFields_keys selectFields_distinct)


subsection \<open>Upserts\<close>

lemma find_append_None: "find P xs = None \<Longrightarrow> find P (xs @ [x]) = (if P x then Some x else None)"
  by (induction xs) (auto split: if_splits)

lemma find_None_set: "find P xs = None \<Longrightarrow> x \<in> set xs \<Longrightarrow> \<not> P x"
  by (induction xs) (auto split: if_splits)

lemma find_Some_mem: "find P xs = Some x \<Longrightarrow> x \<in> set xs \<and> P x"
  by (induction xs) (auto split: if_splits)

lemma find_map_replace:
  "find P xs = Some x \<Longrightarrow> P y \<Longrightarrow> find P (map (\<lambda>z. if P z then y else z) xs) = Some y"
  by (induction xs) (auto split: if_splits)

lemma map_replace_set:
  "z \<in> set (map (\<lambda>z. if P z then y else z) xs) \<Longrightarrow> z = y \<or> (z \<in> set xs \<and> \<not> P z)"
  by (induction xs) (auto split: if_splits)

lemma map_replace_mem:
  "find P xs = Some x \<Longrightarrow> y \<in> set (map (\<lambda>z. if P z then y else z) xs)"
  by (induction xs) (auto split: if_splits)

lemma map_replace_ids:
  "(\<And>x. x \<in> set xs \<Longrightarrow> P x \<Longrightarrow> key x = key y) \<Longrightarrow>
   map key (map (\<lambda>z. if P z then y else z) xs) = map key xs"
  by (induction xs) auto

lemma user_upsert_cases:
  assumes "user_upsert email un pw role act ext w = (Inr u, w1)"
  obtains (updated) u0 where "find (\<lambda>x. u_email x = email) (users w) = Some u0"
      and "u = u0 \<lparr> u_username := un, u_password := pw, u_role := role, u_active := act,
                    u_externalId := ext, u_updatedAt := clock w \<rparr>"
      and "w1 = w \<lparr> users := map (\<lambda>x. if u_email x = email then u else x) (users w) \<rparr>"
      and "\<not> user_externalId_taken ext email w"
    | (created) "find (\<lambda>x. u_email x = email) (users w) = None"
      and "u = \<lparr> u_id = nextUserId w, u_email = email, u_username = un, u_password = pw,
                  u_role = role, u_active = act, u_externalId = ext,
                  u_createdAt = clock w, u_updatedAt = clock w \<rparr>"
      and "w1 = w \<lparr> users := users w @ [u], nextUserId := nextUserId w + 1 \<rparr>"
      and "\<not> user_externalId_taken ext email w"
  using assms
  by (auto simp: user_upsert_def knownRequestError_def Let_def split: if_splits option.splits)

lemma taken_iff:
  "user_externalId_taken ext email w \<longleftrightarrow>
     (\<exists>x y. ext = Some x \<and> y \<in> set (users w) \<and> u_externalId y = Some x \<and> u_email y \<noteq> email)"
  by (cases ext) (auto simp: user_externalId_taken_def list_ex_iff)

lemma user_upsert_post:
  assumes "user_upsert email un pw role act ext w = (Inr u, w1)"
  shows "\<not> user_externalId_taken ext email w1"
    and "find (\<lambda>x. u_email x = email) (users w1) = Some u"
    and "\<And>x. x \<in> set (users w1) \<Longrightarrow> u_email x = email \<Longrightarrow> x = u"
    and "u_externalId u = ext" and "u_email u = email" and "u \<in> set (users w1)"
proof -
  have "\<not> user_externalId_taken ext email w1
      \<and> find (\<lambda>x. u_email x = email) (users w1) = Some u
      \<and> (\<forall>x. x \<in> set (users w1) \<longrightarrow> u_email x = email \<longrightarrow> x = u)
      \<and> u_externalId u = ext \<and> u_email u = email \<and> u \<in> set (users w1)"
    using assms
  proof (cases rule: user_upsert_cases)
    case (updated u0)
    have e0: "u_email u0 = email" and m0: "u0 \<in> set (users w)"
      using find_Some_mem [OF updated(1)] by simp_all
    have eu: "u_email u = email"
      using updated(2) e0 by simp
    have a: "\<not> user_externalId_taken ext email w1"
      using updated(4) eu
      by (auto simp: taken_iff updated(3) dest!: map_replace_set)
    have b: "find (\<lambda>x. u_email x = email) (users w1) = Some u"
      using find_map_replace [of "\<lambda>x. u_email x = email" "users w" u0 u] updated(1) eu
      by (simp add: updated(3))
    have c: "\<forall>x. x \<in> set (users w1) \<longrightarrow> u_email x = email \<longrightarrow> x = u"
      by (auto simp: updated(3) dest!: map_replace_set)
    have d: "u \<in> set (users w1)"
      using map_replace_mem [of "\<lambda>x. u_email x = email" "users w" u0 u] updated(1)
      by (simp add: updated(3))
    have x: "u_externalId u = ext"
      by (simp add: updated(2))
    show ?thesis
      using a b c d eu x by blast
  next
    case created
    have eu: "u_email u = email" and xu: "u_externalId u = ext"
      using created(2) by simp_all
    have a: "\<not> user_externalId_taken ext email w1"
      using created(4) eu by (auto simp: taken_iff created(3))
    have b: "find (\<lambda>x. u_email x = email) (users w1) = Some u"
      using find_append_None [OF created(1), of u] eu by (simp add: created(3))
    have c: "\<forall>x. x \<in> set (users w1) \<longrightarrow> u_email x = email \<longrightarrow> x = u"
      using find_None_set [OF created(1)] by (auto simp: created(3))
    have d: "u \<in> set (users w1)"
      by (simp add: created(3))
    show ?thesis
      using a b c d eu xu by blast
  qed
  then show "\<not> user_externalId_taken ext email w1"
    and "find (\<lambda>x. u_email x = email) (users w1) = Some u"
    and "\<And>x. x \<in> set (users w1) \<Longrightarrow> u_email x = email \<Longrightarrow> x = u"
    and "u_externalId u = ext" and "u_email u = email" and "u \<in> set (users w1)"
    by blast+
qed

lemma user_upsert_update:
  assumes nt: "\<not> user_externalId_taken ext email w1"
    and f: "find (\<lambda>x. u_email x = email) (users w1) = Some u"
    and un: "\<And>x. x \<in> set (users w1) \<Longrightarrow> u_email x = email \<Longrightarrow> x = u"
  shows "\<exists>u' w2. user_upsert email un pw role act ext w1 = (Inr u', w2)
     \<and> u_id u' = u_id u \<and> u_externalId u' = ext \<and> u_email u' = email
     \<and> map u_id (users w2) = map u_id (users w1)
     \<and> u' \<in> set (users w2)"
proof -
  define u' where "u' = u \<lparr> u_username := un, u_password := pw, u_role := role,
     u_active := act, u_externalId := ext, u_updatedAt := clock w1 \<rparr>"
  define w2 where "w2 = w1 \<lparr> users := map (\<lambda>x. if u_email x = email then u' else x) (users w1) \<rparr>"
  have r: "user_upsert email un pw role act ext w1 = (Inr u', w2)"
    using nt f by (simp add: user_upsert_def Let_def u'_def w2_def)
  have eu: "u_email u = email"
    using find_Some_mem [OF f] by simp
  have ids: "map u_id (users w2) = map u_id (users w1)"
    unfolding w2_def using un
    by (simp add: u'_def map_replace_ids [where key = u_id])
  have mem: "u' \<in> set (users w2)"
    using map_replace_mem [of "\<lambda>x. u_email x = email" "users w1" u u'] f
    by (simp add: w2_def)
  show ?thesis
    using r ids mem eu by (auto simp: u'_def)
qed


lemma upsertUser_Inr:
  assumes "upsertUser r w = (Inr u, w1)"
  shows "\<exists>email un pw role act. r_email r = Some email
    \<and> (\<forall>w'. upsertUser r w' = user_upsert email un pw role act (externalIdOf (r_id r)) w')"
  using assms
  by (auto simp: upsertUser_def Let_def validationError_def split: sum.splits option.splits)

text \<open>Articles.\<close>

lemma article_taken_iff:
  "article_externalId_taken ext slug w \<longleftrightarrow>
     (\<exists>x y. ext = Some x \<and> y \<in> set (articles w) \<and> a_externalId y = Some x \<and> a_slug y \<noteq> slug)"
  by (cases ext) (auto simp: article_externalId_taken_def list_ex_iff)

lemma article_upsert_cases:
  assumes "article_upsert slug title descr body ext aid w = (Inr a, w1)"
  obtains (updated) a0 where "find (\<lambda>x. a_slug x = slug) (articles w) = Some a0"
      and "a = a0 \<lparr> a_title := title, a_description := descr, a_body := body,
                    a_externalId := ext, a_authorId := aid \<rparr>"
      and "w1 = w \<lparr> articles := map (\<lambda>x. if a_slug x = slug then a else x) (articles w) \<rparr>"
      and "\<not> article_externalId_taken ext slug w" and "user_exists aid w"
    | (created) "find (\<lambda>x. a_slug x = slug) (articles w) = None"
      and "a = \<lparr> a_id = nextArticleId w, a_slug = slug, a_title = title,
                  a_description = descr, a_body = body, a_externalId = ext,
                  a_authorId = aid, a_tagList = [], a_status = None, a_publishedAt = None,
                  a_createdAt = clock w \<rparr>"
      and "w1 = w \<lparr> articles := articles w @ [a], nextArticleId := nextArticleId w + 1 \<rparr>"
      and "\<not> article_externalId_taken ext slug w" and "user_exists aid w"
  using assms
  by (auto simp: article_upsert_def knownRequestError_def Let_def split: if_splits option.splits)

lemma article_upsert_post:
  assumes "article_upsert slug title descr body ext aid w = (Inr a, w1)"
  shows "\<not> article_externalId_taken ext slug w1
      \<and> find (\<lambda>x. a_slug x = slug) (articles w1) = Some a
      \<and> (\<forall>x. x \<in> set (articles w1) \<longrightarrow> a_slug x = slug \<longrightarrow> x = a)
      \<and> users w1 = users w"
  using assms
proof (cases rule: article_upsert_cases)
  case (updated a0)
  have e0: "a_slug a0 = slug"
    using find_Some_mem [OF updated(1)] by simp
  have ea: "a_slug a = slug"
    using e0 by (simp add: updated(2))
  have p: "\<not> article_externalId_taken ext slug w1"
    using updated(4) ea
    by (auto simp: article_taken_iff updated(3) dest!: map_replace_set)
  have q: "find (\<lambda>x. a_slug x = slug) (articles w1) = Some a"
    using find_map_replace [of "\<lambda>x. a_slug x = slug" "articles w" a0 a] updated(1) ea
    by (simp add: updated(3))
  have c: "\<forall>x. x \<in> set (articles w1) \<longrightarrow> a_slug x = slug \<longrightarrow> x = a"
    by (auto simp: updated(3) dest!: map_replace_set)
  have d: "users w1 = users w"
    by (simp add: updated(3))
  show ?thesis
    using p q c d by blast
next
  case created
  have ea: "a_slug a = slug"
    by (simp add: created(2))
  have p: "\<not> article_externalId_taken ext slug w1"
    using created(4) ea by (auto simp: article_taken_iff created(3))
  have q: "find (\<lambda>x. a_slug x = slug) (articles w1) = Some a"
    using find_append_None [OF created(1), of a] ea by (simp add: created(3))
  have c: "\<forall>x. x \<in> set (articles w1) \<longrightarrow> a_slug x = slug \<longrightarrow> x = a"
    using find_None_set [OF created(1)] by (auto simp: created(3))
  have d: "users w1 = users w"
    by (simp add: created(3))
  show ?thesis
    using p q c d by blast
qed

lemma article_upsert_update:
  assumes nt: "\<not> article_externalId_taken ext slug w1"
    and f: "find (\<lambda>x. a_slug x = slug) (articles w1) = Some a"
    and un: "\<forall>x. x \<in> set (articles w1) \<longrightarrow> a_slug x = slug \<longrightarrow> x = a"
    and ex: "user_exists aid w1"
  shows "\<exists>a' w2. article_upsert slug title descr body ext aid w1 = (Inr a', w2)
     \<and> a_id a' = a_id a \<and> map a_id (articles w2) = map a_id (articles w1)
     \<and> a' \<in> set (articles w2)"
proof -
  define a' where "a' = a \<lparr> a_title := title, a_description := descr, a_body := body,
     a_externalId := ext, a_authorId := aid \<rparr>"
  define w2 where
    "w2 = w1 \<lparr> articles := map (\<lambda>x. if a_slug x = slug then a' else x) (articles w1) \<rparr>"
  have r: "article_upsert slug title descr body ext aid w1 = (Inr a', w2)"
    using nt f ex by (simp add: article_upsert_def Let_def a'_def w2_def)
  have ids: "map a_id (articles w2) = map a_id (articles w1)"
    unfolding w2_def using un
    by (simp add: a'_def map_replace_ids [where key = a_id])
  have mem: "a' \<in> set (articles w2)"
    using map_replace_mem [of "\<lambda>x. a_slug x = slug" "articles w1" a a'] f
    by (simp add: w2_def)
  have "a_id a' = a_id a"
    by (simp add: a'_def)
  then show ?thesis
    using r ids mem by blast
qed

lemma authorOf_users: "users w' = users w \<Longrightarrow> authorOf r w' = authorOf r w"
  by (simp add: authorOf_def user_findUnique_externalId_def)

lemma upsertArticle_Inr:
  assumes "upsertArticle r w = (Inr a, w1)"
  shows "\<exists>slug title descr body aid.
    article_upsert slug title descr body (externalIdOf (r_id r)) aid w = (Inr a, w1)
    \<and> (\<forall>w'. users w' = users w \<longrightarrow>
           upsertArticle r w' = article_upsert slug title descr body (externalIdOf (r_id r)) aid w')
    \<and> r_slug r = Some slug \<and> r_title r = Some title \<and> r_body r = Some body"
proof -
  have unf: "\<And>w'. upsertArticle r w' = (case authorOf r w' of
        Inl e \<Rightarrow> (Inl e, w')
      | Inr aid \<Rightarrow>
          (case (r_slug r, r_title r,
                 (case truthyStr (r_description r) of Some d \<Rightarrow> Some d | None \<Rightarrow> r_title r),
                 r_body r) of
             (Some slug, Some title, Some descr, Some body) \<Rightarrow>
               article_upsert slug title descr body (externalIdOf (r_id r)) aid w'
           | _ \<Rightarrow> validationError ''Argument is missing'' w'))"
    by (simp add: upsertArticle_def authorOf_def Let_def split: sum.splits)
  obtain aid where aid: "authorOf r w = Inr aid"
    using assms by (cases "authorOf r w") (simp_all add: unf)
  obtain slug title descr body where parts: "r_slug r = Some slug" "r_title r = Some title"
    "(case truthyStr (r_description r) of Some d \<Rightarrow> Some d | None \<Rightarrow> r_title r) = Some descr"
    "r_body r = Some body"
    using assms aid
    by (simp add: unf validationError_def split: option.splits)
  have all: "\<And>w'. users w' = users w \<Longrightarrow>
      upsertArticle r w' = article_upsert slug title descr body (externalIdOf (r_id r)) aid w'"
    by (simp add: unf authorOf_users aid parts)
  have first: "article_upsert slug title descr body (externalIdOf (r_id r)) aid w = (Inr a, w1)"
    using assms all [of w] by simp
  show ?thesis
    using first all parts(1) parts(2) parts(4) by blast
qed

text \<open>Comments.\<close>

lemma upsertComment_Inr:
  assumes "upsertComment r w = (Inr c, w1)"
  shows "\<exists>body aid uid. comment_create body aid uid w = (Inr c, w1)
    \<and> (\<forall>w'. users w' = users w \<longrightarrow> articles w' = articles w \<longrightarrow>
           upsertComment r w' = comment_create body aid uid w')"
  using assms
  by (auto simp: upsertComment_def validationError_def user_findUnique_externalId_def
      article_findUnique_externalId_def split: sum.splits option.splits)

lemma comment_create_Inr:
  assumes "comment_create body aid uid w = (Inr c, w1)"
  shows "article_exists aid w \<and> user_exists uid w \<and> c_id c = nextCommentId w
     \<and> w1 = w \<lparr> comments := comments w @ [c], nextCommentId := nextCommentId w + 1 \<rparr>"
  using assms
  by (auto simp: comment_create_def knownRequestError_def Let_def split: if_splits)

lemma upsertComment_twice:
  assumes "upsertComment r w = (Inr c, w1)"
  shows "\<exists>c' w2. upsertComment r w1 = (Inr c', w2) \<and> c_id c' \<noteq> c_id c
     \<and> comments w1 = comments w @ [c]
     \<and> comments w2 = comments w @ [c, c']"
proof -
  obtain body aid uid where first: "comment_create body aid uid w = (Inr c, w1)"
    and eq: "\<And>w'. users w' = users w \<Longrightarrow> articles w' = articles w \<Longrightarrow>
           upsertComment r w' = comment_create body aid uid w'"
    using upsertComment_Inr [OF assms] by blast
  note f = comment_create_Inr [OF first]
  have w1: "w1 = w \<lparr> comments := comments w @ [c], nextCommentId := nextCommentId w + 1 \<rparr>"
    using f by blast
  have same: "users w1 = users w" "articles w1 = articles w"
    by (simp_all add: w1)
  have ex: "article_exists aid w1" "user_exists uid w1"
    using f by (simp_all add: w1 article_exists_def user_exists_def)
  have n: "nextCommentId w1 = nextCommentId w + 1" "comments w1 = comments w @ [c]"
    by (simp_all add: w1)
  have cid: "c_id c = nextCommentId w"
    using f by blast
  show ?thesis
    using ex n cid by (simp add: eq [OF same] comment_create_def Let_def)
qed


text \<open>What a second call with the arguments of a successful call does to the table.\<close>

lemma user_upsert_again:
  assumes "user_upsert email un pw role act ext w = (Inr u, w1)"
  shows "\<exists>u' w2. user_upsert email un pw role act ext w1 = (Inr u', w2)
     \<and> u_id u' = u_id u \<and> u_email u' = email \<and> u_externalId u' = ext
     \<and> u_username u' = u_username u \<and> u_role u' = u_role u \<and> u_active u' = u_active u
     \<and> u_updatedAt u' = clock w1
     \<and> users w2 = map (\<lambda>x. if u_email x = email then u' else x) (users w1)
     \<and> u' \<in> set (users w2)
     \<and> map u_id (users w2) = map u_id (users w1)"
proof -
  note post = user_upsert_post [OF assms]
  have vals: "u_username u = un \<and> u_role u = role \<and> u_active u = act"
    using assms by (cases rule: user_upsert_cases) simp_all
  define u' where "u' = u \<lparr> u_username := un, u_password := pw, u_role := role,
     u_active := act, u_externalId := ext, u_updatedAt := clock w1 \<rparr>"
  define w2 where "w2 = w1 \<lparr> users := map (\<lambda>x. if u_email x = email then u' else x) (users w1) \<rparr>"
  have r: "user_upsert email un pw role act ext w1 = (Inr u', w2)"
    using post(1) post(2) by (simp add: user_upsert_def Let_def u'_def w2_def)
  have f: "u_id u' = u_id u" "u_email u' = email" "u_externalId u' = ext"
    "u_username u' = u_username u" "u_role u' = u_role u" "u_active u' = u_active u"
    "u_updatedAt u' = clock w1"
    using vals post(5) by (simp_all add: u'_def)
  have us: "users w2 = map (\<lambda>x. if u_email x = email then u' else x) (users w1)"
    by (simp add: w2_def)
  have ids: "map u_id (users w2) = map u_id (users w1)"
    unfolding w2_def using post(3)
    by (simp add: u'_def map_replace_ids [where key = u_id])
  have mem: "u' \<in> set (users w2)"
    using map_replace_mem [of "\<lambda>x. u_email x = email" "users w1" u u'] post(2)
    by (simp add: w2_def)
  show ?thesis
    using r f us ids mem by blast
qed

lemma article_upsert_again:
  assumes "article_upsert slug title descr body ext aid w = (Inr a, w1)"
  shows "a_slug a = slug \<and> a \<in> set (articles w1)
     \<and> (\<exists>a' w2. article_upsert slug title descr body ext aid w1 = (Inr a', w2)
     \<and> a_id a' = a_id a \<and> a_slug a' = slug \<and> a_externalId a' = ext
     \<and> a_title a' = title \<and> a_body a' = body \<and> a_authorId a' = aid
     \<and> articles w2 = map (\<lambda>x. if a_slug x = slug then a' else x) (articles w1)
     \<and> a' \<in> set (articles w2)
     \<and> map a_id (articles w2) = map a_id (articles w1))"
proof -
  note post = article_upsert_post [OF assms]
  have f1: "find (\<lambda>x. a_slug x = slug) (articles w1) = Some a"
    using post by blast
  have sl: "a_slug a = slug" and m1: "a \<in> set (articles w1)"
    using find_Some_mem [OF f1] by simp_all
  have ex: "user_exists aid w1"
    using assms post by (auto simp: user_exists_def elim: article_upsert_cases)
  have nt: "\<not> article_externalId_taken ext slug w1"
    using post by blast
  have un: "\<forall>x. x \<in> set (articles w1) \<longrightarrow> a_slug x = slug \<longrightarrow> x = a"
    using post by blast
  define a' where "a' = a \<lparr> a_title := title, a_description := descr, a_body := body,
     a_externalId := ext, a_authorId := aid \<rparr>"
  define w2 where
    "w2 = w1 \<lparr> articles := map (\<lambda>x. if a_slug x = slug then a' else x) (articles w1) \<rparr>"
  have r: "article_upsert slug title descr body ext aid w1 = (Inr a', w2)"
    using nt f1 ex by (simp add: article_upsert_def Let_def a'_def w2_def)
  have f: "a_id a' = a_id a" "a_slug a' = slug" "a_externalId a' = ext"
    "a_title a' = title" "a_body a' = body" "a_authorId a' = aid"
    using sl by (simp_all add: a'_def)
  have us: "articles w2 = map (\<lambda>x. if a_slug x = slug then a' else x) (articles w1)"
    by (simp add: w2_def)
  have ids: "map a_id (articles w2) = map a_id (articles w1)"
    unfolding w2_def using un
    by (simp add: a'_def map_replace_ids [where key = a_id])
  have mem: "a' \<in> set (articles w2)"
    using map_replace_mem [of "\<lambda>x. a_slug x = slug" "articles w1" a a'] f1
    by (simp add: w2_def)
  have "\<exists>a' w2. article_upsert slug title descr body ext aid w1 = (Inr a', w2)
     \<and> a_id a' = a_id a \<and> a_slug a' = slug \<and> a_externalId a' = ext
     \<and> a_title a' = title \<and> a_body a' = body \<and> a_authorId a' = aid
     \<and> articles w2 = map (\<lambda>x. if a_slug x = slug then a' else x) (articles w1)
     \<and> a' \<in> set (articles w2)
     \<and> map a_id (articles w2) = map a_id (articles w1)"
    using r f us ids mem by blast
  then show ?thesis
    using sl m1 by blast
qed

lemma upsertUser_again:
  assumes "upsertUser r w = (Inr u, w1)"
  shows "r_email r = Some (u_email u) \<and> u_externalId u = externalIdOf (r_id r)
     \<and> u \<in> set (users w1)
     \<and> (\<exists>u' w2. upsertUser r w1 = (Inr u', w2)
          \<and> u_id u' = u_id u \<and> u_email u' = u_email u \<and> u_externalId u' = u_externalId u
          \<and> u_username u' = u_username u \<and> u_role u' = u_role u \<and> u_active u' = u_active u
          \<and> u_updatedAt u' = clock w1
          \<and> users w2 = map (\<lambda>x. if u_email x = u_email u then u' else x) (users w1)
          \<and> u' \<in> set (users w2)
          \<and> map u_id (users w2) = map u_id (users w1))"
proof -
  obtain email un pw role act where em: "r_email r = Some email" and
    eq: "\<And>w'. upsertUser r w' = user_upsert email un pw role act (externalIdOf (r_id r)) w'"
    using upsertUser_Inr [OF assms] by blast
  have first: "user_upsert email un pw role act (externalIdOf (r_id r)) w = (Inr u, w1)"
    using assms by (simp add: eq)
  note post = user_upsert_post [OF first]
  have a: "r_email r = Some (u_email u)"
    using em post(5) by simp
  show ?thesis
    using user_upsert_again [OF first] a post(4) post(5) post(6)
    by (simp add: eq)
qed

lemma upsertArticle_again:
  assumes "upsertArticle r w = (Inr a, w1)"
  shows "r_slug r = Some (a_slug a) \<and> r_title r = Some (a_title a)
     \<and> r_body r = Some (a_body a) \<and> a_externalId a = externalIdOf (r_id r)
     \<and> a \<in> set (articles w1)
     \<and> (\<exists>a' w2. upsertArticle r w1 = (Inr a', w2)
          \<and> a_id a' = a_id a \<and> a_slug a' = a_slug a \<and> a_externalId a' = a_externalId a
          \<and> a_title a' = a_title a \<and> a_body a' = a_body a \<and> a_authorId a' = a_authorId a
          \<and> articles w2 = map (\<lambda>x. if a_slug x = a_slug a then a' else x) (articles w1)
          \<and> a' \<in> set (articles w2)
          \<and> map a_id (articles w2) = map a_id (articles w1))"
proof -
  obtain slug title descr body aid where
    first: "article_upsert slug title descr body (externalIdOf (r_id r)) aid w = (Inr a, w1)"
    and eq: "\<And>w'. users w' = users w \<Longrightarrow>
           upsertArticle r w' = article_upsert slug title descr body (externalIdOf (r_id r)) aid w'"
    and parts: "r_slug r = Some slug" "r_title r = Some title" "r_body r = Some body"
    using upsertArticle_Inr [OF assms] by blast
  have vals: "a_title a = title \<and> a_body a = body \<and> a_externalId a = externalIdOf (r_id r)
      \<and> a_authorId a = aid"
    using first by (cases rule: article_upsert_cases) simp_all
  have same: "users w1 = users w"
    using article_upsert_post [OF first] by blast
  show ?thesis
    using article_upsert_again [OF first] vals parts
    by (simp add: eq [OF same])
qed

lemma upsertUser_with_email:
  assumes "r_email r = Some email"
  shows "\<exists>un pw role act. \<forall>w'.
     upsertUser r w' = user_upsert email un pw role act (externalIdOf (r_id r)) w'"
  using assms
  by (auto simp: upsertUser_def Let_def split: option.splits)

lemma exported_user_id:
  assumes "u_externalId u = Some x" and "x \<noteq> []"
  shows "getField (formatUserRecord E (user_record u) None) ''id'' = JStr x"
  using assms
  by (simp add: formatUserRecord_def selectFields_def getField_def user_record_def
      empty_cursor_record_def js_or_def str_val_def)

lemma reimported_user:
  assumes "userRecordSchema ok (JObj (formatUserRecord E (user_record u) None)) = Inr r'"
    and "u_externalId u = Some x" and "x \<noteq> []"
  shows "r_id r' = Some (IdStr x) \<and> r_email r' = Some (u_email u)"
  using assms
  unfolding userRecordSchema_def
  by (auto simp: zap_Inr_iff field_def getProp_def at_path_Inr_iff is_object_def
      formatUserRecord_def selectFields_def user_record_def empty_cursor_record_def
      js_or_def str_val_def z_id_def z_email_def invalid_def empty_record_def
      split: if_splits)


text \<open>
  C5. A user record imported under an external identifier (a string identifier with a
  hyphen) is stored in a row that the export formatter renders with that identifier as
  its \<open>id\<close>, not with the internal integer; and whenever the exported object passes
  validation again, upserting it succeeds on that same row: same internal identifier,
  same external identifier, and the same rows in the table as before.
\<close>

theorem external_id_round_trip:
  assumes "r_id r = Some (IdStr x)" and "str_includes x (CHR ''-'')"
    and "upsertUser r w = (Inr u, w1)"
  shows "u \<in> set (users w1)
    \<and> getField (formatUserRecord E (user_record u) None) ''id'' = JStr x
    \<and> getField (formatUserRecord E (user_record u) None) ''id'' \<noteq> JNum (u_id u)
    \<and> (\<forall>r'. userRecordSchema (emailOk E) (JObj (formatUserRecord E (user_record u) None)) = Inr r'
          \<longrightarrow> (\<exists>u' w2. upsertUser r' w1 = (Inr u', w2) \<and> u_id u' = u_id u
                 \<and> u_externalId u' = Some x \<and> u' \<in> set (users w2)
                 \<and> map u_id (users w2) = map u_id (users w1)))"
proof -
  have ne: "x \<noteq> []"
    using assms(2) by (auto simp: str_includes_def)
  have ext: "externalIdOf (r_id r) = Some x"
    using assms(1,2) by simp
  obtain email un pw role act where
    eq: "\<And>w'. upsertUser r w' = user_upsert email un pw role act (externalIdOf (r_id r)) w'"
    using upsertUser_Inr [OF assms(3)] by blast
  have first: "user_upsert email un pw role act (Some x) w = (Inr u, w1)"
    using assms(3) by (simp add: eq ext)
  note post = user_upsert_post [OF first]
  have a: "u \<in> set (users w1)"
    by (rule post(6))
  have b: "getField (formatUserRecord E (user_record u) None) ''id'' = JStr x"
    using exported_user_id [OF post(4) ne] .
  have c: "\<exists>u' w2. upsertUser r' w1 = (Inr u', w2) \<and> u_id u' = u_id u
                 \<and> u_externalId u' = Some x \<and> u' \<in> set (users w2)
                 \<and> map u_id (users w2) = map u_id (users w1)"
    if v: "userRecordSchema (emailOk E) (JObj (formatUserRecord E (user_record u) None)) = Inr r'"
    for r'
  proof -
    have r': "r_id r' = Some (IdStr x)" "r_email r' = Some email"
      using reimported_user [OF v post(4) ne] post(5) by simp_all
    obtain un' pw' role' act' where
      eq': "\<And>w'. upsertUser r' w' = user_upsert email un' pw' role' act' (externalIdOf (r_id r')) w'"
      using upsertUser_with_email [OF r'(2)] by blast
    have ext': "externalIdOf (r_id r') = Some x"
      using r'(1) assms(2) by simp
    show ?thesis
      using user_upsert_update [OF post(1) post(2) post(3), of un' pw' role' act']
      by (simp add: eq' ext') blast
  qed
  show ?thesis
    using a b c by simp
qed


text \<open>
  C10. A successful call of \<open>upsertUser\<close> stores a row under the e-mail address of the
  record, and a successful call of \<open>upsertArticle\<close> a row under its slug. A second call
  with the same record succeeds and writes that row again: the row it returns has the
  internal identifier of the first, the same key and the same external identifier, it
  replaces the row of that key in the table (for a user, with the time of the second
  call as its time of update), and the table keeps its identifiers, so that no row is
  added. A second call of \<open>upsertComment\<close> succeeds too and adds a second row after the
  first, under another identifier.
\<close>

theorem upsert_idempotence_asymmetric:
  "(upsertUser ru wu = (Inr u, wu1) \<longrightarrow>
      r_email ru = Some (u_email u) \<and> u_externalId u = externalIdOf (r_id ru)
      \<and> u \<in> set (users wu1)
      \<and> (\<exists>u' w2. upsertUser ru wu1 = (Inr u', w2)
           \<and> u_id u' = u_id u \<and> u_email u' = u_email u \<and> u_externalId u' = u_externalId u
           \<and> u_username u' = u_username u \<and> u_role u' = u_role u \<and> u_active u' = u_active u
           \<and> u_updatedAt u' = clock wu1
           \<and> users w2 = map (\<lambda>x. if u_email x = u_email u then u' else x) (users wu1)
           \<and> u' \<in> set (users w2)
           \<and> map u_id (users w2) = map u_id (users wu1)))
   \<and> (upsertArticle ra wa = (Inr a, wa1) \<longrightarrow>
      r_slug ra = Some (a_slug a) \<and> r_title ra = Some (a_title a)
      \<and> r_body ra = Some (a_body a) \<and> a_externalId a = externalIdOf (r_id ra)
      \<and> a \<in> set (articles wa1)
      \<and> (\<exists>a' w2. upsertArticle ra wa1 = (Inr a', w2)
           \<and> a_id a' = a_id a \<and> a_slug a' = a_slug a \<and> a_externalId a' = a_externalId a
           \<and> a_title a' = a_title a \<and> a_body a' = a_body a \<and> a_authorId a' = a_authorId a
           \<and> articles w2 = map (\<lambda>x. if a_slug x = a_slug a then a' else x) (articles wa1)
           \<and> a' \<in> set (articles w2)
           \<and> map a_id (articles w2) = map a_id (articles wa1)))
   \<and> (upsertComment rc wc = (Inr c, wc1) \<longrightarrow>
      (\<exists>c' w2. upsertComment rc wc1 = (Inr c', w2) \<and> c_id c' \<noteq> c_id c
         \<and> comments wc1 = comments wc @ [c]
         \<and> comments w2 = comments wc @ [c, c']))"
proof (intro conjI impI)
  assume "upsertUser ru wu = (Inr u, wu1)"
  from upsertUser_again [OF this]
  show "r_email ru = Some (u_email u)" and "u_externalId u = externalIdOf (r_id ru)"
    and "u \<in> set (users wu1)"
    and "\<exists>u' w2. upsertUser ru wu1 = (Inr u', w2)
           \<and> u_id u' = u_id u \<and> u_email u' = u_email u \<and> u_externalId u' = u_externalId u
           \<and> u_username u' = u_username u \<and> u_role u' = u_role u \<and> u_active u' = u_active u
           \<and> u_updatedAt u' = clock wu1
           \<and> users w2 = map (\<lambda>x. if u_email x = u_email u then u' else x) (users wu1)
           \<and> u' \<in> set (users w2)
           \<and> map u_id (users w2) = map u_id (users wu1)"
    by blast+
next
  assume "upsertArticle ra wa = (Inr a, wa1)"
  from upsertArticle_again [OF this]
  show "r_slug ra = Some (a_slug a)" and "r_title ra = Some (a_title a)"
    and "r_body ra = Some (a_body a)" and "a_externalId a = externalIdOf (r_id ra)"
    and "a \<in> set (articles wa1)"
    and "\<exists>a' w2. upsertArticle ra wa1 = (Inr a', w2)
           \<and> a_id a' = a_id a \<and> a_slug a' = a_slug a \<and> a_externalId a' = a_externalId a
           \<and> a_title a' = a_title a \<and> a_body a' = a_body a \<and> a_authorId a' = a_authorId a
           \<and> articles w2 = map (\<lambda>x. if a_slug x = a_slug a then a' else x) (articles wa1)
           \<and> a' \<in> set (articles w2)
           \<and> map a_id (articles w2) = map a_id (articles wa1)"
    by blast+
next
  assume "upsertComment rc wc = (Inr c, wc1)"
  from upsertComment_twice [OF this]
  show "\<exists>c' w2. upsertComment rc wc1 = (Inr c', w2) \<and> c_id c' \<noteq> c_id c
         \<and> comments wc1 = comments wc @ [c]
         \<and> comments w2 = comments wc @ [c, c']"
    by blast
qed



subsection \<open>The upserts on the sample store\<close>

lemmas sample_defs = sampleWorld_def emptyWorld_def sampleUserRow_def sampleArticleRow_def
  sampleJob_def sampleUserRecord_def sampleImportedUser_def sampleArticleRecord_def
  sampleComment_def unresolvedComment_def empty_record_def

lemma sample_username: "removeSpaces (toLowerCase ''New User'') = ''newuser''"
  by code_simp

lemma sample_user_imported:
  "upsertUser sampleUserRecord sampleWorld =
     (Inr sampleImportedUser,
      sampleWorld \<lparr> users := [sampleUserRow, sampleImportedUser], nextUserId := 3 \<rparr>)"
  by (simp add: sample_defs upsertUser_def user_upsert_def user_externalId_taken_def
      truthyStr_def sample_username str_includes_def Let_def)

lemma sample_article_imported:
  "\<exists>a w1. upsertArticle sampleArticleRecord sampleWorld = (Inr a, w1)"
  by (simp add: sample_defs upsertArticle_def article_upsert_def article_externalId_taken_def
      resolveRef_def user_findUnique_externalId_def user_exists_def
      truthyStr_def str_includes_def Let_def)

lemma sample_comment_imported:
  "\<exists>c w1. upsertComment sampleComment sampleWorld = (Inr c, w1)"
  by (simp add: sample_defs upsertComment_def comment_create_def
      resolveRef_def user_findUnique_externalId_def article_findUnique_externalId_def
      user_exists_def article_exists_def str_includes_def Let_def)

lemma digits_0: "digits 0 = ''0''"
  by code_simp

lemma sample_user_exported:
  "userRecordSchema (emailOk sampleEnv)
      (JObj (formatUserRecord sampleEnv (user_record sampleImportedUser) None)) =
   Inr (empty_record \<lparr> r_id := Some (IdStr ''5864905b-ec8c''),
     r_email := Some ''newuser@example.com'', r_name := Some ''newuser'',
     r_role := Some ''admin'', r_active := Some True, r_created_at := Some ''0'',
     r_updated_at := Some ''0'' \<rparr>)"
  by (simp add: sample_defs sampleEnv_def userRecordSchema_def formatUserRecord_def
      selectFields_def user_record_def empty_cursor_record_def js_or_def js_nullish_def
      str_val_def num_val_def bool_val_def date_val_def field_def getProp_def at_path_def
      is_object_def z_id_def z_email_def z_string_min1_def z_optional_def z_default_def
      z_boolean_def z_string_def digits_0)

theorem external_id_round_trip_witness:
  "r_id sampleUserRecord = Some (IdStr ''5864905b-ec8c'')
   \<and> str_includes ''5864905b-ec8c'' (CHR ''-'')
   \<and> upsertUser sampleUserRecord sampleWorld =
       (Inr sampleImportedUser,
        sampleWorld \<lparr> users := [sampleUserRow, sampleImportedUser], nextUserId := 3 \<rparr>)
   \<and> getField (formatUserRecord sampleEnv (user_record sampleImportedUser) None) ''id''
       = JStr ''5864905b-ec8c''
   \<and> (\<exists>r' u' w2.
         userRecordSchema (emailOk sampleEnv)
           (JObj (formatUserRecord sampleEnv (user_record sampleImportedUser) None)) = Inr r'
         \<and> upsertUser r'
             (sampleWorld \<lparr> users := [sampleUserRow, sampleImportedUser], nextUserId := 3 \<rparr>)
             = (Inr u', w2)
         \<and> u_id u' = 2 \<and> u_externalId u' = Some ''5864905b-ec8c''
         \<and> map u_id (users w2) = [1, 2])"
proof -
  have a: "r_id sampleUserRecord = Some (IdStr ''5864905b-ec8c'')"
    by (simp add: sampleUserRecord_def empty_record_def)
  have b: "str_includes ''5864905b-ec8c'' (CHR ''-'')"
    by (simp add: str_includes_def)
  note t = external_id_round_trip [OF a b sample_user_imported, of sampleEnv]
  have c: "getField (formatUserRecord sampleEnv (user_record sampleImportedUser) None) ''id''
       = JStr ''5864905b-ec8c''"
    using t by blast
  have d: "\<exists>u' w2. upsertUser (empty_record \<lparr> r_id := Some (IdStr ''5864905b-ec8c''),
       r_email := Some ''newuser@example.com'', r_name := Some ''newuser'',
       r_role := Some ''admin'', r_active := Some True, r_created_at := Some ''0'',
       r_updated_at := Some ''0'' \<rparr>)
         (sampleWorld \<lparr> users := [sampleUserRow, sampleImportedUser], nextUserId := 3 \<rparr>)
        = (Inr u', w2) \<and> u_id u' = u_id sampleImportedUser
        \<and> u_externalId u' = Some ''5864905b-ec8c'' \<and> u' \<in> set (users w2)
        \<and> map u_id (users w2) = map u_id
            (users (sampleWorld \<lparr> users := [sampleUserRow, sampleImportedUser], nextUserId := 3 \<rparr>))"
    using t sample_user_exported by blast
  then obtain u' w2 where
    u: "upsertUser (empty_record \<lparr> r_id := Some (IdStr ''5864905b-ec8c''),
       r_email := Some ''newuser@example.com'', r_name := Some ''newuser'',
       r_role := Some ''admin'', r_active := Some True, r_created_at := Some ''0'',
       r_updated_at := Some ''0'' \<rparr>)
         (sampleWorld \<lparr> users := [sampleUserRow, sampleImportedUser], nextUserId := 3 \<rparr>)
        = (Inr u', w2)"
    and i: "u_id u' = u_id sampleImportedUser" and x: "u_externalId u' = Some ''5864905b-ec8c''"
    and m: "map u_id (users w2) = map u_id
            (users (sampleWorld \<lparr> users := [sampleUserRow, sampleImportedUser], nextUserId := 3 \<rparr>))"
    by blast
  have i': "u_id u' = 2"
    using i by (simp add: sampleImportedUser_def)
  have m': "map u_id (users w2) = [1, 2]"
    using m by (simp add: sampleImportedUser_def sampleUserRow_def)
  have "\<exists>r' u' w2.
         userRecordSchema (emailOk sampleEnv)
           (JObj (formatUserRecord sampleEnv (user_record sampleImportedUser) None)) = Inr r'
         \<and> upsertUser r'
             (sampleWorld \<lparr> users := [sampleUserRow, sampleImportedUser], nextUserId := 3 \<rparr>)
             = (Inr u', w2)
         \<and> u_id u' = 2 \<and> u_externalId u' = Some ''5864905b-ec8c''
         \<and> map u_id (users w2) = [1, 2]"
    by (intro exI conjI) (rule sample_user_exported, rule u, rule i', rule x, rule m')
  with a b c sample_user_imported show ?thesis
    by (intro conjI)
qed


theorem upsert_idempotence_asymmetric_witness:
  "(\<exists>u w1 u' w2. upsertUser sampleUserRecord sampleWorld = (Inr u, w1)
       \<and> u \<in> set (users w1)
       \<and> upsertUser sampleUserRecord w1 = (Inr u', w2) \<and> u_id u' = u_id u
       \<and> u_email u' = u_email u \<and> u_updatedAt u' = clock w1
       \<and> u' \<in> set (users w2)
       \<and> map u_id (users w2) = map u_id (users w1))
   \<and> (\<exists>a w1 a' w2. upsertArticle sampleArticleRecord sampleWorld = (Inr a, w1)
       \<and> a \<in> set (articles w1)
       \<and> upsertArticle sampleArticleRecord w1 = (Inr a', w2) \<and> a_id a' = a_id a
       \<and> a_slug a' = a_slug a
       \<and> a' \<in> set (articles w2)
       \<and> map a_id (articles w2) = map a_id (articles w1))
   \<and> (\<exists>c w1 c' w2. upsertComment sampleComment sampleWorld = (Inr c, w1)
       \<and> upsertComment sampleComment w1 = (Inr c', w2) \<and> c_id c' \<noteq> c_id c
       \<and> comments w2 = comments sampleWorld @ [c, c'])"
proof -
  obtain a wa1 where a: "upsertArticle sampleArticleRecord sampleWorld = (Inr a, wa1)"
    using sample_article_imported by blast
  obtain c wc1 where c: "upsertComment sampleComment sampleWorld = (Inr c, wc1)"
    using sample_comment_imported by blast
  note t = upsert_idempotence_asymmetric [of sampleUserRecord sampleWorld sampleImportedUser
      "sampleWorld \<lparr> users := [sampleUserRow, sampleImportedUser], nextUserId := 3 \<rparr>"
      sampleArticleRecord sampleWorld a wa1 sampleComment sampleWorld c wc1]
  note tu = mp [OF conjunct1 [OF t] sample_user_imported]
  note ta = mp [OF conjunct1 [OF conjunct2 [OF t]] a]
  note tc = mp [OF conjunct2 [OF conjunct2 [OF t]] c]
  have 1: "\<exists>u w1 u' w2. upsertUser sampleUserRecord sampleWorld = (Inr u, w1)
       \<and> u \<in> set (users w1)
       \<and> upsertUser sampleUserRecord w1 = (Inr u', w2) \<and> u_id u' = u_id u
       \<and> u_email u' = u_email u \<and> u_updatedAt u' = clock w1
       \<and> u' \<in> set (users w2)
       \<and> map u_id (users w2) = map u_id (users w1)"
    using tu sample_user_imported by blast
  have 2: "\<exists>a w1 a' w2. upsertArticle sampleArticleRecord sampleWorld = (Inr a, w1)
       \<and> a \<in> set (articles w1)
       \<and> upsertArticle sampleArticleRecord w1 = (Inr a', w2) \<and> a_id a' = a_id a
       \<and> a_slug a' = a_slug a
       \<and> a' \<in> set (articles w2)
       \<and> map a_id (articles w2) = map a_id (articles w1)"
    using ta a by blast
  have 3: "\<exists>c w1 c' w2. upsertComment sampleComment sampleWorld = (Inr c, w1)
       \<and> upsertComment sampleComment w1 = (Inr c', w2) \<and> c_id c' \<noteq> c_id c
       \<and> comments w2 = comments sampleWorld @ [c, c']"
    using tc c by blast
  from 1 2 3 show ?thesis
    by (intro conjI)
qed



subsection \<open>Batches\<close>












lemma knownRequestError_name [simp]:
  "(knownRequestError m w = (Inl e, w')) = (e = JsError ''PrismaClientKnownRequestError'' m \<and> w' = w)"
  by (auto simp: knownRequestError_def)
























subsection \<open>Imports of the sample files\<close>

lemma csv_lines: "readLines csvContent = [''id,email,name'', ''1,not-an-email,Bob'']"
  by code_simp

lemma ndjson_lines:
  "readLines ndjsonContent = [''{\"id\":1,\"email\":\"not-an-email\",\"name\":\"Bob\"}'']"
  by code_simp

lemma empty_lines: "readLines [] = []"
  by code_simp

lemma sample_lines_not_blank:
  "trim ''id,email,name'' \<noteq> []"
  "trim ''1,not-an-email,Bob'' \<noteq> []"
  "trim ''{\"id\":1,\"email\":\"not-an-email\",\"name\":\"Bob\"}'' \<noteq> []"
  by code_simp+

lemma csv_headers:
  "map trim (split (CHR '','') ''id,email,name'') = [''id'', ''email'', ''name'']"
  by code_simp

lemma csv_bob:
  "validated sampleEnv Users
     (csvRecord sampleEnv [''id'', ''email'', ''name''] ''1,not-an-email,Bob'')
   = Inl (ZodError [Issue [''email''] ''Invalid email format''])"
  by code_simp

lemma ndjson_bob:
  "parseLine sampleEnv Users ''{\"id\":1,\"email\":\"not-an-email\",\"name\":\"Bob\"}''
   = Inl (ZodError [Issue [''email''] ''Invalid email format''])"
  by code_simp

lemma sample_paths:
  "\<not> startsWith ''uploads/users.csv'' ''http://''"
  "\<not> startsWith ''uploads/users.csv'' ''https://''"
  "\<not> endsWith ''uploads/users.csv'' ''.ndjson''"
  "endsWith ''uploads/users.csv'' ''.csv''"
  "\<not> startsWith ''uploads/users.ndjson'' ''http://''"
  "\<not> startsWith ''uploads/users.ndjson'' ''https://''"
  "endsWith ''uploads/users.ndjson'' ''.ndjson''"
  "\<not> startsWith ''uploads/empty.csv'' ''http://''"
  "\<not> startsWith ''uploads/empty.csv'' ''https://''"
  "\<not> endsWith ''uploads/empty.csv'' ''.ndjson''"
  "endsWith ''uploads/empty.csv'' ''.csv''"
  by code_simp+

lemmas import_defs = processImportJob_def beginImportJob_def runImportJob_def importBody_def
  processSource_def updateJobStatus_def updateJobCounts_def importJob_update_def
  startTracking_def finishTracking_def updateProgress_def readFile_def flushRemaining_def
  ingest_def caught_def recordError_def errorRow_def createImportError_def job_exists_def
  initial_state_def truthyStr_def set_opt_def apply_count_def importWorld_def usersJob_def
  emptyWorld_def throwError_def Let_def

lemma csv_run:
  "\<exists>w'. processImportJob sampleEnv 1 (importWorld ''uploads/users.csv'' csvContent) = (Inr (), w')
     \<and> map ij_status (importJobs w') = [Completed]
     \<and> map ie_recordIndex (importErrors w') = [1]
     \<and> map ie_recordData (importErrors w') = [RawLine ''1,not-an-email,Bob'']"
  by (simp add: import_defs processCsvFile_def csv_lines sample_lines_not_blank csv_headers
      csv_bob sample_paths del: split.simps)

lemma ndjson_run:
  "\<exists>w'. processImportJob sampleEnv 1 (importWorld ''uploads/users.ndjson'' ndjsonContent)
       = (Inr (), w')
     \<and> map ij_status (importJobs w') = [Completed]
     \<and> map ie_recordIndex (importErrors w') = [0]"
  by (simp add: import_defs processNdjsonFile_def ndjson_lines sample_lines_not_blank
      ndjson_bob sample_paths)

lemma empty_csv_run:
  "\<exists>w'. processImportJob sampleEnv 1 (importWorld ''uploads/empty.csv'' []) = (Inr (), w')
     \<and> map ij_status (importJobs w') = [Completed]
     \<and> map ij_totalRecords (importJobs w') = [- 1]
     \<and> map ij_successCount (importJobs w') = [0]
     \<and> map ij_errorCount (importJobs w') = [0]"
  by (simp add: import_defs processCsvFile_def empty_lines sample_paths)

text \<open>
  C3 (the code departs from it). The file \<open>users.csv\<close> holds a header line and one data
  record, whose e-mail address is invalid. The import completes, and the error row of
  that record, the first data record of the file, carries the record index 1: the header
  line has taken the index 0. The same record as the single line of an NDJSON file is
  reported under the index 0.
\<close>

theorem csv_first_record_index:
  "fst (processImportJob sampleEnv 1 (importWorld ''uploads/users.csv'' csvContent)) = Inr ()
   \<and> map (\<lambda>e. (ie_recordIndex e, ie_recordData e))
        (importErrors (snd (processImportJob sampleEnv 1
           (importWorld ''uploads/users.csv'' csvContent))))
       = [(1, RawLine ''1,not-an-email,Bob'')]
   \<and> map ie_recordIndex
        (importErrors (snd (processImportJob sampleEnv 1
           (importWorld ''uploads/users.ndjson'' ndjsonContent)))) = [0]"
  using csv_run ndjson_run by auto

text \<open>
  C1 (the code departs from it). An import of an empty CSV file, a source of no record,
  completes with the stored counters \<open>totalRecords = -1\<close>, \<open>successCount = 0\<close> and
  \<open>errorCount = 0\<close>: the total is the record index less one for a header line, also
  when no header line was read.
\<close>

theorem empty_csv_total_records:
  "fst (processImportJob sampleEnv 1 (importWorld ''uploads/empty.csv'' [])) = Inr ()
   \<and> map (\<lambda>j. (ij_status j, ij_totalRecords j, ij_successCount j, ij_errorCount j))
        (importJobs (snd (processImportJob sampleEnv 1 (importWorld ''uploads/empty.csv'' []))))
       = [(Completed, - 1, 0, 0)]"
  using empty_csv_run by auto


subsection \<open>Source errors of an import\<close>



lemma same_jobs_statuses: "same_jobs w w' \<Longrightarrow> same_statuses w w'"
  by (simp add: same_jobs_def same_statuses_def)


























lemma find_other_update:
  assumes "\<And>x. ij_id (f x) = ij_id x" and "k \<noteq> jobId"
  shows "find (\<lambda>x. ij_id x = k) (map (\<lambda>x. if ij_id x = jobId then f x else x) xs)
       = find (\<lambda>x. ij_id x = k) xs"
  using assms by (induction xs) simp_all

lemma importJob_update_only:
  assumes "importJob_update jobId f w = (r, w')" and "\<And>x. ij_id (f x) = ij_id x"
  shows "only_import jobId w w'"
proof (cases "find (\<lambda>j. ij_id j = jobId) (importJobs w)")
  case None
  then show ?thesis
    using assms(1)
    by (simp add: importJob_update_def knownRequestError_def only_import_def)
next
  case (Some j)
  then have w': "w' = w \<lparr> importJobs :=
      map (\<lambda>x. if ij_id x = jobId then f x else x) (importJobs w) \<rparr>"
    using assms(1) by (simp add: importJob_update_def)
  have ids: "map ij_id (importJobs w') = map ij_id (importJobs w)"
    by (simp add: w' comp_def assms(2) cong: map_cong)
  have "importStatus w' k = importStatus w k" if "k \<noteq> jobId" for k
    using find_other_update [of f k jobId "importJobs w", OF assms(2) that]
    by (simp add: importStatus_def w')
  then show ?thesis
    using ids by (simp add: only_import_def w')
qed


lemma updateJobCounts_only:
  "updateJobCounts jobId c w = (r, w') \<Longrightarrow> only_import jobId w w'"
  unfolding updateJobCounts_def by (erule importJob_update_only) simp




lemma only_import_trans:
  "only_import jobId w w1 \<Longrightarrow> only_import jobId w1 w2 \<Longrightarrow> only_import jobId w w2"
  by (simp add: only_import_def)

lemma only_import_tables:
  "importJobs w' = importJobs w \<Longrightarrow> exportJobs w' = exportJobs w \<Longrightarrow> only_import jobId w w'"
  by (simp add: only_import_def importStatus_def)



lemma completes_before:
  "completes jobId w w1 \<Longrightarrow> importJobs w2 = importJobs w1 \<Longrightarrow> exportJobs w2 = exportJobs w1
   \<Longrightarrow> completes jobId w w2"
  using only_import_trans [of jobId w w1 w2] only_import_tables [of w2 w1 jobId]
  by (simp add: completes_def importStatus_def)






















end
